theory Spec2Isabelle
  imports Main "HOL-Library.AList"
begin

section \<open>Values exchanged with the remote API\<close>

text \<open>
  The manager of \<^verbatim>\<open>SoftLayer/managers/load_balancer.py\<close> handles only what the
  remote API returns: nested dictionaries and lists of integers and strings, with
  \<^verbatim>\<open>None\<close> for an absent value. A dictionary is an association list with string
  keys, in insertion order; \<open>AList.update\<close> is Python's \<^verbatim>\<open>d[k] = v\<close> (an existing key
  keeps its place, a new key goes last). Booleans and floats do not occur in the
  responses the module reads and are left out.
\<close>

datatype pyval =
    PNone
  | PInt int
  | PStr string
  | PList "pyval list"
  | PDict "(string \<times> pyval) list"

text \<open>
  The exceptions that can leave a method: the built-in ones raised by the module's own
  subscripts and attribute lookups, and the fault of a remote call.
\<close>

datatype error =
    KeyError | IndexError | TypeError | AttributeError | ValueError | Fault string

definition bindE :: "error + 'a \<Rightarrow> ('a \<Rightarrow> error + 'b) \<Rightarrow> error + 'b" where
  "bindE m f = (case m of Inl e \<Rightarrow> Inl e | Inr x \<Rightarrow> f x)"

text \<open>\<^verbatim>\<open>v[k]\<close> for a string key \<open>k\<close>: only a dictionary accepts it.\<close>

fun getitem :: "pyval \<Rightarrow> string \<Rightarrow> error + pyval" where
  "getitem (PDict d) k = (case map_of d k of None \<Rightarrow> Inl KeyError | Some x \<Rightarrow> Inr x)"
| "getitem PNone k = Inl TypeError"
| "getitem (PInt i) k = Inl TypeError"
| "getitem (PStr s) k = Inl TypeError"
| "getitem (PList xs) k = Inl TypeError"

text \<open>
  \<^verbatim>\<open>v[0]\<close>: the first element of a list, the first character of a string, a missing
  key of a dictionary (whose keys are strings), a type error otherwise.
\<close>

fun getitem0 :: "pyval \<Rightarrow> error + pyval" where
  "getitem0 (PList []) = Inl IndexError"
| "getitem0 (PList (x # xs)) = Inr x"
| "getitem0 (PStr []) = Inl IndexError"
| "getitem0 (PStr (c # cs)) = Inr (PStr [c])"
| "getitem0 (PDict d) = Inl KeyError"
| "getitem0 PNone = Inl TypeError"
| "getitem0 (PInt i) = Inl TypeError"

text \<open>\<^verbatim>\<open>v[k] = x\<close> for a string key: the dictionary after the assignment.\<close>

fun setitem :: "pyval \<Rightarrow> string \<Rightarrow> pyval \<Rightarrow> error + pyval" where
  "setitem (PDict d) k x = Inr (PDict (AList.update k x d))"
| "setitem PNone k x = Inl TypeError"
| "setitem (PInt i) k x = Inl TypeError"
| "setitem (PStr s) k x = Inl TypeError"
| "setitem (PList xs) k x = Inl TypeError"

subsection \<open>Objects shared with their container\<close>

text \<open>
  The object a subscript returns is the one the container holds: when the source mutates
  \<^verbatim>\<open>v[k]\<close> or \<^verbatim>\<open>v[0]\<close> in place, the change is seen through \<open>v\<close>. The responses of
  the remote API are trees (no object occurs twice), so the model stores the mutated
  object back at the place it was read from. \<open>at_key k f v\<close> is "apply the in-place update
  \<open>f\<close> to \<^verbatim>\<open>v[k]\<close>" and returns \<open>v\<close> as it is afterwards; \<open>at_first f v\<close> is the same
  for \<^verbatim>\<open>v[0]\<close>. A character read from a string is a new string, which no update can
  change, so a string stays as it is.
\<close>

definition at_key :: "string \<Rightarrow> (pyval \<Rightarrow> error + pyval) \<Rightarrow> pyval \<Rightarrow> error + pyval" where
  "at_key k f v = bindE (getitem v k) (\<lambda>x. bindE (f x) (\<lambda>x'. setitem v k x'))"

fun put_first :: "pyval \<Rightarrow> pyval \<Rightarrow> pyval" where
  "put_first (PList (y # ys)) x' = PList (x' # ys)"
| "put_first v x' = v"

definition at_first :: "(pyval \<Rightarrow> error + pyval) \<Rightarrow> pyval \<Rightarrow> error + pyval" where
  "at_first f v = bindE (getitem0 v) (\<lambda>x. bindE (f x) (\<lambda>x'. Inr (put_first v x')))"

text \<open>\<^verbatim>\<open>v.append(x)\<close>: only a list has the method.\<close>

fun py_append :: "pyval \<Rightarrow> pyval \<Rightarrow> error + pyval" where
  "py_append (PList xs) x = Inr (PList (xs @ [x]))"
| "py_append PNone x = Inl AttributeError"
| "py_append (PInt i) x = Inl AttributeError"
| "py_append (PStr s) x = Inl AttributeError"
| "py_append (PDict d) x = Inl AttributeError"

text \<open>\<^verbatim>\<open>v.remove(x)\<close>: drops the first element equal to \<open>x\<close> from a list.\<close>

fun py_remove :: "pyval \<Rightarrow> pyval \<Rightarrow> error + pyval" where
  "py_remove (PList xs) x = (if x \<in> set xs then Inr (PList (remove1 x xs)) else Inl ValueError)"
| "py_remove PNone x = Inl AttributeError"
| "py_remove (PInt i) x = Inl AttributeError"
| "py_remove (PStr s) x = Inl AttributeError"
| "py_remove (PDict d) x = Inl AttributeError"

subsection \<open>Iteration\<close>

text \<open>
  What \<^verbatim>\<open>for x in v\<close> visits: the elements of a list, the keys of a dictionary, the
  characters of a string; \<^verbatim>\<open>None\<close> and integers are not iterable.
\<close>

fun elems :: "pyval \<Rightarrow> error + pyval list" where
  "elems (PList xs) = Inr xs"
| "elems (PDict d) = Inr (map (\<lambda>kv. PStr (fst kv)) d)"
| "elems (PStr s) = Inr (map (\<lambda>c. PStr [c]) s)"
| "elems PNone = Inl TypeError"
| "elems (PInt i) = Inl TypeError"

text \<open>A loop body run on each element in turn; the first exception ends the loop.\<close>

fun mapE :: "('a \<Rightarrow> error + 'b) \<Rightarrow> 'a list \<Rightarrow> error + 'b list" where
  "mapE f [] = Inr []"
| "mapE f (x # xs) =
     (case f x of
        Inl e \<Rightarrow> Inl e
      | Inr y \<Rightarrow> (case mapE f xs of Inl e \<Rightarrow> Inl e | Inr ys \<Rightarrow> Inr (y # ys)))"

text \<open>
  \<^verbatim>\<open>for x in v: body(x)\<close> where the body updates \<open>x\<close> in place: the container after
  the loop. The elements of a list are the objects it holds; the keys of a dictionary and
  the characters of a string are strings, which a body cannot change.
\<close>

fun put_elems :: "pyval \<Rightarrow> pyval list \<Rightarrow> pyval" where
  "put_elems (PList xs) xs' = PList xs'"
| "put_elems v xs' = v"

definition for_each :: "(pyval \<Rightarrow> error + pyval) \<Rightarrow> pyval \<Rightarrow> error + pyval" where
  "for_each body v =
     bindE (elems v) (\<lambda>xs. bindE (mapE body xs) (\<lambda>xs'. Inr (put_elems v xs')))"

subsection \<open>Attributes\<close>

text \<open>
  The one attribute lookup of the module is on the description of a catalog entry. Of
  the methods of a string only \<^verbatim>\<open>startswith\<close> is modelled; no value of the model has an
  attribute of another name among those the module asks for.
\<close>

datatype pymethod = Str_startswith string

fun getattr :: "pyval \<Rightarrow> string \<Rightarrow> error + pymethod" where
  "getattr (PStr s) name =
     (if name = ''startswith'' then Inr (Str_startswith s) else Inl AttributeError)"
| "getattr PNone name = Inl AttributeError"
| "getattr (PInt i) name = Inl AttributeError"
| "getattr (PList xs) name = Inl AttributeError"
| "getattr (PDict d) name = Inl AttributeError"

fun call_method :: "pymethod \<Rightarrow> pyval \<Rightarrow> error + bool" where
  "call_method (Str_startswith s) (PStr p) = Inr (take (length p) s = p)"
| "call_method (Str_startswith s) PNone = Inl TypeError"
| "call_method (Str_startswith s) (PInt i) = Inl TypeError"
| "call_method (Str_startswith s) (PList xs) = Inl TypeError"
| "call_method (Str_startswith s) (PDict d) = Inl TypeError"

section \<open>Remote calls\<close>

text \<open>
  Every remote operation the manager invokes, with the arguments it is given. The API
  client is a function from the call to its response or fault; a method returns its
  result together with the calls it issued, in order.
\<close>

datatype call =
    GetItems pyval pyval
  | GetDataCenters
  | GetBillingItem int
  | CancelService pyval
  | GetVirtualServers int pyval string
  | GetObject int string
  | EditObject pyval int
  | KickAllConnections pyval

type_synonym client = "call \<Rightarrow> error + pyval"

text \<open>
  \<^verbatim>\<open>query_filter\<close> of \<^verbatim>\<open>SoftLayer.utils\<close> is not part of the module: it is a
  parameter of the methods that build a filter, and may raise as any function can.
  \<^verbatim>\<open>NestedDict\<close> only builds the nested dictionary that \<^verbatim>\<open>to_dict()\<close> hands to the
  call, which is written out.
\<close>

type_synonym query_filter = "pyval \<Rightarrow> error + pyval"

section \<open>The manager's methods\<close>

text \<open>
  \<^verbatim>\<open>virtual_servers[0]['serviceGroups'][0]\<close>, the first service group of the first
  virtual server of a response, and its \<^verbatim>\<open>['services']\<close>.
\<close>

definition first_service_group :: "pyval \<Rightarrow> error + pyval" where
  "first_service_group virtual_servers =
     bindE (getitem0 virtual_servers) (\<lambda>v. bindE (getitem v ''serviceGroups'') getitem0)"

definition first_group_services :: "pyval \<Rightarrow> error + pyval" where
  "first_group_services virtual_servers =
     bindE (first_service_group virtual_servers) (\<lambda>g. getitem g ''services'')"

subsection \<open>get\_lb\_pkgs\<close>

text \<open>
  The test of the loop body, \<^verbatim>\<open>package['description'].startsWith('Global')\<close>: the
  subscript, the attribute lookup under the name the source writes, the call.
\<close>

definition is_global :: "pyval \<Rightarrow> error + bool" where
  "is_global package =
     bindE (getitem package ''description'') (\<lambda>description.
     bindE (getattr description ''startsWith'') (\<lambda>m.
     call_method m (PStr ''Global'')))"

text \<open>
  The loop removes from the list it iterates over. Python's list iterator keeps an
  index into the list as it is at each step: \<open>i\<close> is that index, \<open>packages\<close> the
  list as mutated so far.
\<close>

function get_lb_pkgs_loop :: "nat \<Rightarrow> pyval \<Rightarrow> error + pyval" where
  "get_lb_pkgs_loop i packages =
     (case elems packages of
        Inl e \<Rightarrow> Inl e
      | Inr ps \<Rightarrow>
          if i < length ps then
            (case is_global (ps ! i) of
               Inl e \<Rightarrow> Inl e
             | Inr g \<Rightarrow>
                 if g then
                   (case py_remove packages (ps ! i) of
                      Inl e \<Rightarrow> Inl e
                    | Inr packages' \<Rightarrow> get_lb_pkgs_loop (Suc i) packages')
                 else get_lb_pkgs_loop (Suc i) packages)
          else Inr packages)"
  by pat_completeness auto
termination
proof (relation "measure (\<lambda>(i, packages). (case elems packages of Inl e \<Rightarrow> 0 | Inr ps \<Rightarrow> length ps) - i)")
  show "wf (measure (\<lambda>(i, packages). (case elems packages of Inl e \<Rightarrow> 0 | Inr ps \<Rightarrow> length ps) - i))"
    by simp
next
  fix i packages ps g packages'
  assume "elems packages = Inr ps" "i < length ps"
    and rm: "py_remove packages (ps ! i) = Inr packages'"
  then show "((Suc i, packages'), (i, packages))
       \<in> measure (\<lambda>(i, packages). (case elems packages of Inl e \<Rightarrow> 0 | Inr ps \<Rightarrow> length ps) - i)"
    by (cases packages) (auto simp: length_remove1 split: if_splits)
next
  fix i packages ps g
  assume "elems packages = Inr ps" "i < length ps"
  then show "((Suc i, packages), (i, packages))
       \<in> measure (\<lambda>(i, packages). (case elems packages of Inl e \<Rightarrow> 0 | Inr ps \<Rightarrow> length ps) - i)"
    by simp
qed

definition get_lb_pkgs :: "query_filter \<Rightarrow> client \<Rightarrow> (error + pyval) \<times> call list" where
  "get_lb_pkgs query_filter client =
     (case query_filter (PStr ''*Load Balancer*'') of
        Inl e \<Rightarrow> (Inl e, [])
      | Inr qf \<Rightarrow>
          (let c = GetItems (PInt 0) (PDict [(''items'', PDict [(''description'', qf)])]) in
           case client c of
             Inl e \<Rightarrow> (Inl e, [c])
           | Inr packages \<Rightarrow> (get_lb_pkgs_loop 0 packages, [c])))"

subsection \<open>get\_location\<close>

fun get_location_loop :: "pyval list \<Rightarrow> string \<Rightarrow> error + pyval" where
  "get_location_loop [] datacenter = Inr (PStr ''FIRST_AVAILABLE'')"
| "get_location_loop (dcenter # dcenters) datacenter =
     (case getitem dcenter ''name'' of
        Inl e \<Rightarrow> Inl e
      | Inr n \<Rightarrow>
          if n = PStr datacenter then getitem dcenter ''id''
          else get_location_loop dcenters datacenter)"

definition get_location :: "client \<Rightarrow> string \<Rightarrow> (error + pyval) \<times> call list" where
  "get_location client datacenter =
     (case client GetDataCenters of
        Inl e \<Rightarrow> (Inl e, [GetDataCenters])
      | Inr dcenters \<Rightarrow>
          (bindE (elems dcenters) (\<lambda>ds. get_location_loop ds datacenter), [GetDataCenters]))"

subsection \<open>cancel\_lb\<close>

definition cancel_lb :: "client \<Rightarrow> int \<Rightarrow> (error + pyval) \<times> call list" where
  "cancel_lb client loadbal_id =
     (case client (GetBillingItem loadbal_id) of
        Inl e \<Rightarrow> (Inl e, [GetBillingItem loadbal_id])
      | Inr lb_billing \<Rightarrow>
          (case getitem lb_billing ''id'' of
             Inl e \<Rightarrow> (Inl e, [GetBillingItem loadbal_id])
           | Inr billing_id \<Rightarrow>
               (client (CancelService billing_id),
                [GetBillingItem loadbal_id, CancelService billing_id])))"

subsection \<open>edit\_service\<close>

text \<open>
  The body of the loop over the services, as an update of one service; the assignments
  are in the source's order.
\<close>

definition edit_service_body ::
  "int \<Rightarrow> int \<Rightarrow> int \<Rightarrow> int \<Rightarrow> int \<Rightarrow> int \<Rightarrow> pyval \<Rightarrow> error + pyval" where
  "edit_service_body service_id ip_address_id port enabled hc_type weight service =
     bindE (getitem service ''id'') (\<lambda>sid.
       if sid = PInt service_id then
         bindE (if enabled \<noteq> -1 then setitem service ''enabled'' (PInt enabled)
                else Inr service) (\<lambda>service.
         bindE (if port \<noteq> -1 then setitem service ''port'' (PInt port)
                else Inr service) (\<lambda>service.
         bindE (if weight \<noteq> -1
                then at_key ''groupReferences''
                       (at_first (\<lambda>r. setitem r ''weight'' (PInt weight))) service
                else Inr service) (\<lambda>service.
         bindE (if hc_type \<noteq> -1
                then at_key ''healthChecks''
                       (at_first (\<lambda>h. setitem h ''healthCheckTypeId'' (PInt hc_type))) service
                else Inr service) (\<lambda>service.
         if ip_address_id \<noteq> 0 then setitem service ''ipAddressId'' (PInt ip_address_id)
         else Inr service))))
       else Inr service)"

definition edit_service_mask :: string where
  "edit_service_mask = ''mask[serviceGroups[services[groupReferences,healthChecks]]]''"

definition edit_service_filter :: "pyval \<Rightarrow> pyval" where
  "edit_service_filter qf =
     PDict [(''virtualServers'',
       PDict [(''serviceGroups'', PDict [(''services'', PDict [(''id'', qf)])])])]"

text \<open>
  The loop of the method, over \<^verbatim>\<open>virtual_servers[0]['serviceGroups'][0]['services']\<close>:
  the list of virtual servers as the loop leaves it.
\<close>

definition edit_service_update ::
  "int \<Rightarrow> int \<Rightarrow> int \<Rightarrow> int \<Rightarrow> int \<Rightarrow> int \<Rightarrow> pyval \<Rightarrow> error + pyval" where
  "edit_service_update service_id ip_address_id port enabled hc_type weight =
     at_first (at_key ''serviceGroups'' (at_first (at_key ''services''
       (for_each (edit_service_body service_id ip_address_id port enabled hc_type weight)))))"

definition edit_service ::
  "query_filter \<Rightarrow> client \<Rightarrow> int \<Rightarrow> int \<Rightarrow> int \<Rightarrow> int \<Rightarrow> int \<Rightarrow> int \<Rightarrow> int
     \<Rightarrow> (error + pyval) \<times> call list" where
  "edit_service query_filter client loadbal_id service_id ip_address_id port enabled
       hc_type weight =
     (case query_filter (PInt service_id) of
        Inl e \<Rightarrow> (Inl e, [])
      | Inr qf \<Rightarrow>
          (let c = GetVirtualServers loadbal_id (edit_service_filter qf) edit_service_mask in
           case client c of
             Inl e \<Rightarrow> (Inl e, [c])
           | Inr virtual_servers \<Rightarrow>
               (case edit_service_update service_id ip_address_id port enabled hc_type weight
                       virtual_servers of
                  Inl e \<Rightarrow> (Inl e, [c])
                | Inr virtual_servers' \<Rightarrow>
                    (let template = PDict [(''virtualServers'', virtual_servers')] in
                     (client (EditObject template loadbal_id),
                      [c, EditObject template loadbal_id])))))"

subsection \<open>add\_service\<close>

definition lb_mask :: string where
  "lb_mask = ''mask[virtualServers[serviceGroups[services[groupReferences]]]]''"

definition service_template :: "int \<Rightarrow> int \<Rightarrow> int \<Rightarrow> int \<Rightarrow> int \<Rightarrow> pyval" where
  "service_template ip_address_id port enabled hc_type weight =
     PDict [(''enabled'', PInt enabled),
            (''port'', PInt port),
            (''ipAddressId'', PInt ip_address_id),
            (''healthChecks'', PList [PDict [(''healthCheckTypeId'', PInt hc_type)]]),
            (''groupReferences'', PList [PDict [(''weight'', PInt weight)]])]"

definition add_service_body ::
  "int \<Rightarrow> int \<Rightarrow> int \<Rightarrow> int \<Rightarrow> int \<Rightarrow> int \<Rightarrow> pyval \<Rightarrow> error + pyval" where
  "add_service_body service_group_id ip_address_id port enabled hc_type weight virtual_server =
     bindE (getitem virtual_server ''id'') (\<lambda>vid.
       if vid = PInt service_group_id then
         at_key ''serviceGroups'' (at_first (at_key ''services''
           (\<lambda>services. py_append services
              (service_template ip_address_id port enabled hc_type weight)))) virtual_server
       else Inr virtual_server)"

text \<open>The loop of the method over \<^verbatim>\<open>load_balancer['virtualServers']\<close>.\<close>

definition add_service_update ::
  "int \<Rightarrow> int \<Rightarrow> int \<Rightarrow> int \<Rightarrow> int \<Rightarrow> int \<Rightarrow> pyval \<Rightarrow> error + pyval" where
  "add_service_update service_group_id ip_address_id port enabled hc_type weight =
     at_key ''virtualServers''
       (for_each (add_service_body service_group_id ip_address_id port enabled hc_type weight))"

definition add_service ::
  "client \<Rightarrow> int \<Rightarrow> int \<Rightarrow> int \<Rightarrow> int \<Rightarrow> int \<Rightarrow> int \<Rightarrow> int \<Rightarrow> (error + pyval) \<times> call list" where
  "add_service client loadbal_id service_group_id ip_address_id port enabled hc_type weight =
     (let c = GetObject loadbal_id lb_mask in
      case client c of
        Inl e \<Rightarrow> (Inl e, [c])
      | Inr load_balancer \<Rightarrow>
          (case add_service_update service_group_id ip_address_id port enabled hc_type weight
                  load_balancer of
             Inl e \<Rightarrow> (Inl e, [c])
           | Inr load_balancer' \<Rightarrow>
               (client (EditObject load_balancer' loadbal_id),
                [c, EditObject load_balancer' loadbal_id])))"

subsection \<open>add\_service\_group\<close>

definition group_template :: "int \<Rightarrow> int \<Rightarrow> int \<Rightarrow> int \<Rightarrow> pyval" where
  "group_template allocation port routing_type routing_method =
     PDict [(''port'', PInt port),
            (''allocation'', PInt allocation),
            (''serviceGroups'',
               PList [PDict [(''routingTypeId'', PInt routing_type),
                             (''routingMethodId'', PInt routing_method)]])]"

definition add_service_group ::
  "client \<Rightarrow> int \<Rightarrow> int \<Rightarrow> int \<Rightarrow> int \<Rightarrow> int \<Rightarrow> (error + pyval) \<times> call list" where
  "add_service_group client lb_id allocation port routing_type routing_method =
     (let c = GetObject lb_id lb_mask in
      case client c of
        Inl e \<Rightarrow> (Inl e, [c])
      | Inr load_balancer \<Rightarrow>
          (case at_key ''virtualServers''
                  (\<lambda>virtual_servers. py_append virtual_servers
                     (group_template allocation port routing_type routing_method))
                  load_balancer of
             Inl e \<Rightarrow> (Inl e, [c])
           | Inr load_balancer' \<Rightarrow>
               (client (EditObject load_balancer' lb_id),
                [c, EditObject load_balancer' lb_id])))"

subsection \<open>edit\_service\_group\<close>

text \<open>
  The body reads the first service group before it assigns anything; the assignments to
  the group reach the virtual server through that reference, which the last line of the
  model stores back.
\<close>

definition edit_service_group_body ::
  "int \<Rightarrow> int \<Rightarrow> int \<Rightarrow> int \<Rightarrow> int \<Rightarrow> pyval \<Rightarrow> error + pyval" where
  "edit_service_group_body group_id allocation port routing_type routing_method virtual_server =
     bindE (getitem virtual_server ''id'') (\<lambda>vid.
       if vid = PInt group_id then
         bindE (bindE (getitem virtual_server ''serviceGroups'') getitem0) (\<lambda>service_group.
         bindE (if allocation \<noteq> -1 then setitem virtual_server ''allocation'' (PInt allocation)
                else Inr virtual_server) (\<lambda>virtual_server.
         bindE (if port \<noteq> 0 then setitem virtual_server ''port'' (PInt port)
                else Inr virtual_server) (\<lambda>virtual_server.
         bindE (if routing_type \<noteq> 0
                then setitem service_group ''routingTypeId'' (PInt routing_type)
                else Inr service_group) (\<lambda>service_group.
         bindE (if routing_method \<noteq> 0
                then setitem service_group ''routingMethodId'' (PInt routing_method)
                else Inr service_group) (\<lambda>service_group.
         at_key ''serviceGroups'' (at_first (\<lambda>g. Inr service_group)) virtual_server)))))
       else Inr virtual_server)"

text \<open>The loop of the method over \<^verbatim>\<open>load_balancer['virtualServers']\<close>.\<close>

definition edit_service_group_update ::
  "int \<Rightarrow> int \<Rightarrow> int \<Rightarrow> int \<Rightarrow> int \<Rightarrow> pyval \<Rightarrow> error + pyval" where
  "edit_service_group_update group_id allocation port routing_type routing_method =
     at_key ''virtualServers''
       (for_each (edit_service_group_body group_id allocation port routing_type
                    routing_method))"

definition edit_service_group ::
  "client \<Rightarrow> int \<Rightarrow> int \<Rightarrow> int \<Rightarrow> int \<Rightarrow> int \<Rightarrow> int \<Rightarrow> (error + pyval) \<times> call list" where
  "edit_service_group client loadbal_id group_id allocation port routing_type routing_method =
     (let c = GetObject loadbal_id lb_mask in
      case client c of
        Inl e \<Rightarrow> (Inl e, [c])
      | Inr load_balancer \<Rightarrow>
          (case edit_service_group_update group_id allocation port routing_type routing_method
                  load_balancer of
             Inl e \<Rightarrow> (Inl e, [c])
           | Inr load_balancer' \<Rightarrow>
               (client (EditObject load_balancer' loadbal_id),
                [c, EditObject load_balancer' loadbal_id])))"

subsection \<open>reset\_service\_group\<close>

text \<open>
  The filter is \<^verbatim>\<open>{'virtualServers': {'id': query_filter(group_id)}}\<close>; the id handed to
  the kick is \<^verbatim>\<open>virtual_servers[0]['serviceGroups'][0]['id']\<close>, read subscript by
  subscript.
\<close>

definition reset_service_group ::
  "query_filter \<Rightarrow> client \<Rightarrow> int \<Rightarrow> pyval \<Rightarrow> (error + pyval) \<times> call list" where
  "reset_service_group query_filter client loadbal_id group_id =
     (case query_filter group_id of
        Inl e \<Rightarrow> (Inl e, [])
      | Inr qf \<Rightarrow>
          (let c = GetVirtualServers loadbal_id
                     (PDict [(''virtualServers'', PDict [(''id'', qf)])])
                     ''mask[serviceGroups]'' in
           case client c of
             Inl e \<Rightarrow> (Inl e, [c])
           | Inr virtual_servers \<Rightarrow>
               (case bindE (getitem0 virtual_servers) (\<lambda>v.
                     bindE (getitem v ''serviceGroups'') (\<lambda>gs.
                     bindE (getitem0 gs) (\<lambda>g. getitem g ''id''))) of
                  Inl e \<Rightarrow> (Inl e, [c])
                | Inr actual_id \<Rightarrow>
                    (client (KickAllConnections actual_id),
                     [c, KickAllConnections actual_id]))))"

section \<open>Comparing a payload with the fetched snapshot\<close>

text \<open>
  \<open>without ks v\<close> is the dictionary \<open>v\<close> with the entries under the keys \<open>ks\<close> left out:
  two dictionaries that are equal without \<open>ks\<close> differ at most under those keys.
\<close>

fun without :: "string list \<Rightarrow> pyval \<Rightarrow> pyval" where
  "without ks (PDict d) = PDict (filter (\<lambda>kv. fst kv \<notin> set ks) d)"
| "without ks PNone = PNone"
| "without ks (PInt i) = PInt i"
| "without ks (PStr s) = PStr s"
| "without ks (PList xs) = PList xs"

text \<open>
  \<open>first_group_only vks gks v v'\<close>: the virtual server \<open>v'\<close> is \<open>v\<close> except under its own
  keys \<open>vks\<close> and inside its first service group, which is the old one except under the
  keys \<open>gks\<close>; every other service group is the old one.
\<close>

definition first_group_only :: "string list \<Rightarrow> string list \<Rightarrow> pyval \<Rightarrow> pyval \<Rightarrow> bool" where
  "first_group_only vks gks v v' \<longleftrightarrow>
     without (''serviceGroups'' # vks) v' = without (''serviceGroups'' # vks) v \<and>
     (case (getitem v ''serviceGroups'', getitem v' ''serviceGroups'') of
        (Inr (PList (g # gs)), Inr (PList (g' # gs'))) \<Rightarrow>
           gs' = gs \<and> without gks g' = without gks g
      | (a, b) \<Rightarrow> b = a)"

section \<open>Concrete runs\<close>

text \<open>A filter builder, and clients that answer each call with a fixed response.\<close>

definition example_filter :: query_filter where
  "example_filter v = Inr (PDict [(''operation'', v)])"

definition client_no_billing :: client where
  "client_no_billing c =
     (case c of GetBillingItem i \<Rightarrow> Inr PNone | _ \<Rightarrow> Inl (Fault ''remote''))"

definition client_empty_billing :: client where
  "client_empty_billing c =
     (case c of GetBillingItem i \<Rightarrow> Inr (PStr []) | _ \<Rightarrow> Inl (Fault ''remote''))"

definition client_billing :: client where
  "client_billing c =
     (case c of
        GetBillingItem i \<Rightarrow> Inr (PDict [(''id'', PInt 99)])
      | CancelService b \<Rightarrow> Inr (PInt 1)
      | _ \<Rightarrow> Inl (Fault ''remote''))"

definition client_catalog :: client where
  "client_catalog c =
     (case c of
        GetItems i f \<Rightarrow>
          Inr (PList [PDict [(''id'', PInt 1), (''description'', PStr ''Global Load Balancer'')],
                      PDict [(''id'', PInt 2), (''description'', PStr ''Local Load Balancer'')]])
      | _ \<Rightarrow> Inl (Fault ''remote''))"

definition client_datacenters :: client where
  "client_datacenters c =
     (case c of
        GetDataCenters \<Rightarrow>
          Inr (PList [PDict [(''id'', PInt 3), (''name'', PStr ''ams01'')],
                      PDict [(''id'', PInt 4), (''name'', PStr ''dal05'')]])
      | _ \<Rightarrow> Inl (Fault ''remote''))"

text \<open>
  A load balancer with two virtual servers. Service 1 occurs in the first group of the
  first virtual server, in its second group, and in the second virtual server.
\<close>

definition example_service :: "int \<Rightarrow> int \<Rightarrow> pyval" where
  "example_service i p =
     PDict [(''id'', PInt i), (''port'', PInt p), (''enabled'', PInt 1),
            (''ipAddressId'', PInt 5),
            (''groupReferences'', PList [PDict [(''weight'', PInt 3)]]),
            (''healthChecks'', PList [PDict [(''healthCheckTypeId'', PInt 21)]])]"

definition example_server_list :: "pyval list" where
  "example_server_list =
           [PDict [(''id'', PInt 50), (''port'', PInt 80),
                   (''serviceGroups'',
                      PList [PDict [(''id'', PInt 60),
                                    (''services'',
                                       PList [example_service 1 80, example_service 2 81])],
                             PDict [(''id'', PInt 50),
                                    (''services'', PList [example_service 1 90])]])],
            PDict [(''id'', PInt 51), (''port'', PInt 443),
                   (''serviceGroups'',
                      PList [PDict [(''id'', PInt 62),
                                    (''services'', PList [example_service 1 70])]])]]"

definition example_servers :: pyval where
  "example_servers = PList example_server_list"

definition client_lb :: client where
  "client_lb c =
     (case c of
        GetVirtualServers i f m \<Rightarrow> Inr example_servers
      | GetObject i m \<Rightarrow> Inr (PDict [(''id'', PInt i), (''virtualServers'', example_servers)])
      | EditObject t i \<Rightarrow> Inr (PInt 1)
      | KickAllConnections g \<Rightarrow> Inr (PInt 1)
      | _ \<Rightarrow> Inl (Fault ''remote''))"

definition client_no_servers :: client where
  "client_no_servers c =
     (case c of
        GetVirtualServers i f m \<Rightarrow> Inr (PList [])
      | EditObject t i \<Rightarrow> Inr (PInt 1)
      | _ \<Rightarrow> Inl (Fault ''remote''))"

section \<open>Properties of the value operations\<close>

lemma bindE_Inl [simp]: "bindE (Inl e) f = Inl e"
  by (simp add: bindE_def)

lemma bindE_Inr [simp]: "bindE (Inr x) f = f x"
  by (simp add: bindE_def)

lemma bindE_eq_Inr: "bindE m f = Inr y \<longleftrightarrow> (\<exists>x. m = Inr x \<and> f x = Inr y)"
  by (cases m) simp_all

lemma getitem_eq_Inr: "getitem v k = Inr x \<longleftrightarrow> (\<exists>d. v = PDict d \<and> map_of d k = Some x)"
  by (cases v) (auto split: option.splits)

lemma at_key_eq_Inr:
  "at_key k f v = Inr v' \<longleftrightarrow>
     (\<exists>d x x'. v = PDict d \<and> map_of d k = Some x \<and> f x = Inr x' \<and>
        v' = PDict (AList.update k x' d))"
  by (cases v) (auto simp: at_key_def bindE_eq_Inr split: option.splits)

lemma at_first_eq_Inr:
  "at_first f v = Inr v' \<longleftrightarrow>
     (\<exists>x xs x'. v = PList (x # xs) \<and> f x = Inr x' \<and> v' = PList (x' # xs)) \<or>
     (\<exists>c cs x'. v = PStr (c # cs) \<and> f (PStr [c]) = Inr x' \<and> v' = v)"
  by (cases v rule: getitem0.cases) (auto simp: at_first_def bindE_eq_Inr)

lemma mapE_eq_Inr: "mapE f xs = Inr ys \<longleftrightarrow> list_all2 (\<lambda>x y. f x = Inr y) xs ys"
proof (induction xs arbitrary: ys)
  case Nil
  then show ?case by auto
next
  case (Cons x xs)
  show ?case
    by (cases ys) (auto simp: Cons.IH [symmetric] split: sum.splits)
qed

lemma for_each_eq_Inr:
  "for_each body v = Inr v' \<longleftrightarrow>
     (\<exists>xs xs'. elems v = Inr xs \<and> list_all2 (\<lambda>x y. body x = Inr y) xs xs' \<and>
        v' = put_elems v xs')"
  by (auto simp: for_each_def bindE_eq_Inr mapE_eq_Inr)

lemma filter_update_same:
  "k \<in> set ks \<Longrightarrow>
   filter (\<lambda>kv. fst kv \<notin> set ks) (AList.update k x d) = filter (\<lambda>kv. fst kv \<notin> set ks) d"
  by (induction d) auto

lemma without_setitem:
  "setitem v k x = Inr v' \<Longrightarrow> k \<in> set ks \<Longrightarrow> without ks v' = without ks v"
  by (cases v) (auto simp: filter_update_same)

lemma getitem_setitem:
  "setitem v k x = Inr v' \<Longrightarrow> getitem v' k' = (if k' = k then Inr x else getitem v k')"
  by (cases v) (auto simp: update_conv')

lemma without_update:
  "k \<in> set ks \<Longrightarrow> without ks (PDict (AList.update k x d)) = without ks (PDict d)"
  by (simp add: filter_update_same)

lemma map_of_filter_keys:
  "k \<notin> set ks \<Longrightarrow> map_of (filter (\<lambda>kv. fst kv \<notin> set ks) d) k = map_of d k"
  by (induction d) auto

lemma getitem_without: "k \<notin> set ks \<Longrightarrow> getitem (without ks v) k = getitem v k"
  by (cases v) (simp_all add: map_of_filter_keys)

lemma getitem0_eq_Inr:
  "getitem0 v = Inr x \<longleftrightarrow>
     (\<exists>xs. v = PList (x # xs)) \<or> (\<exists>c cs. v = PStr (c # cs) \<and> x = PStr [c])"
  by (cases v rule: getitem0.cases) auto

lemma first_group_services_eq_Inr:
  "first_group_services vs = Inr x \<longleftrightarrow>
     (\<exists>d rest g gs. vs = PList (PDict d # rest) \<and>
        map_of d ''serviceGroups'' = Some (PList (PDict g # gs)) \<and> map_of g ''services'' = Some x)"
  unfolding first_group_services_def first_service_group_def bindE_eq_Inr getitem0_eq_Inr
    getitem_eq_Inr
  by auto

lemma first_group_path:
  "at_first (at_key ''serviceGroups'' (at_first (at_key k f))) vs = Inr vs' \<longleftrightarrow>
     (\<exists>d rest g gs x x'. vs = PList (PDict d # rest) \<and>
        map_of d ''serviceGroups'' = Some (PList (PDict g # gs)) \<and>
        map_of g k = Some x \<and> f x = Inr x' \<and>
        vs' = PList (PDict (AList.update ''serviceGroups''
                (PList (PDict (AList.update k x' g) # gs)) d) # rest))"
  unfolding at_first_eq_Inr at_key_eq_Inr by auto

lemma group_path:
  "at_key ''serviceGroups'' (at_first (at_key k f)) v = Inr v' \<longleftrightarrow>
     (\<exists>d g gs x x'. v = PDict d \<and>
        map_of d ''serviceGroups'' = Some (PList (PDict g # gs)) \<and>
        map_of g k = Some x \<and> f x = Inr x' \<and>
        v' = PDict (AList.update ''serviceGroups''
                (PList (PDict (AList.update k x' g) # gs)) d))"
  unfolding at_first_eq_Inr at_key_eq_Inr by auto


lemma for_each_list_same:
  assumes "\<forall>x \<in> set xs. body x = Inr x"
  shows "for_each body (PList xs) = Inr (PList xs)"
proof -
  from assms have "mapE body xs = Inr xs"
    by (induction xs) auto
  then show ?thesis by (simp add: for_each_def)
qed




lemma without_at_key:
  "at_key k f v = Inr v' \<Longrightarrow> k \<in> set ks \<Longrightarrow> without ks v' = without ks v"
  unfolding at_key_eq_Inr by (auto simp: filter_update_same)


lemma first_group_only_listI:
  assumes "without (''serviceGroups'' # vks) v' = without (''serviceGroups'' # vks) v"
    and "getitem v ''serviceGroups'' = Inr (PList (g # gs))"
    and "getitem v' ''serviceGroups'' = Inr (PList (g' # gs))"
    and "without gks g' = without gks g"
  shows "first_group_only vks gks v v'"
  using assms by (simp add: first_group_only_def)

lemma first_group_only_sameI:
  assumes "without (''serviceGroups'' # vks) v' = without (''serviceGroups'' # vks) v"
    and "getitem v' ''serviceGroups'' = getitem v ''serviceGroups''"
  shows "first_group_only vks gks v v'"
  using assms
  by (simp add: first_group_only_def split: sum.splits pyval.splits list.splits)


section \<open>get\_lb\_pkgs\<close>

text \<open>
  The loop body never gets as far as a decision: whatever the entry is, the subscript or
  the lookup of \<^verbatim>\<open>startsWith\<close> raises. So the method returns only what it can iterate
  over without visiting anything.
\<close>

lemma is_global_raises: "\<exists>e. is_global package = Inl e"
proof (cases "getitem package ''description''")
  case (Inl e)
  then show ?thesis by (simp add: is_global_def)
next
  case (Inr description)
  then show ?thesis by (cases description) (simp_all add: is_global_def)
qed

lemma get_lb_pkgs_loop_returns_nothing:
  assumes "get_lb_pkgs_loop 0 packages = Inr r"
  shows "elems packages = Inr [] \<and> r = packages"
proof (cases "elems packages")
  case (Inl e)
  with assms show ?thesis by simp
next
  case (Inr ps)
  show ?thesis
  proof (cases ps)
    case Nil
    with Inr assms show ?thesis by simp
  next
    case (Cons p ps')
    obtain e where "is_global p = Inl e"
      using is_global_raises by blast
    with Inr Cons assms show ?thesis by simp
  qed
qed

text \<open>
  C1. On a catalog that holds a "Global" entry the method does not return the catalog
  with that entry removed: the test of the first entry raises an attribute error (a
  string has no \<^verbatim>\<open>startsWith\<close>), which leaves the method after its one remote call.
\<close>

theorem get_lb_pkgs_global_raises:
  "get_lb_pkgs example_filter client_catalog =
     (Inl AttributeError,
      [GetItems (PInt 0)
         (PDict [(''items'',
            PDict [(''description'', PDict [(''operation'', PStr ''*Load Balancer*'')])])])])"
  by (simp add: get_lb_pkgs_def example_filter_def client_catalog_def is_global_def)

section \<open>get\_location\<close>

lemma get_location_loop_found:
  assumes "\<forall>d \<in> set pre. \<exists>n. getitem d ''name'' = Inr n \<and> n \<noteq> PStr datacenter"
    and "getitem d ''name'' = Inr (PStr datacenter)"
  shows "get_location_loop (pre @ d # post) datacenter = getitem d ''id''"
  using assms by (induction pre) auto

lemma get_location_loop_missing:
  assumes "\<forall>d \<in> set ds. \<exists>n. getitem d ''name'' = Inr n \<and> n \<noteq> PStr datacenter"
  shows "get_location_loop ds datacenter = Inr (PStr ''FIRST_AVAILABLE'')"
  using assms by (induction ds) auto

lemma get_location_unknown:
  assumes "client GetDataCenters = Inr (PList dcenters)"
    and "\<forall>d \<in> set dcenters. \<exists>n i. getitem d ''name'' = Inr n \<and> getitem d ''id'' = Inr i"
    and "\<forall>d \<in> set dcenters. getitem d ''name'' \<noteq> Inr (PStr datacenter)"
  shows "get_location client datacenter = (Inr (PStr ''FIRST_AVAILABLE''), [GetDataCenters])"
proof -
  from assms(2,3)
  have "\<forall>d \<in> set dcenters. \<exists>n. getitem d ''name'' = Inr n \<and> n \<noteq> PStr datacenter"
    by metis
  then show ?thesis
    using assms(1) by (simp add: get_location_def get_location_loop_missing)
qed

lemma get_location_known:
  assumes "client GetDataCenters = Inr (PList dcenters)"
    and "\<forall>d \<in> set dcenters. \<exists>n i. getitem d ''name'' = Inr n \<and> getitem d ''id'' = Inr i"
    and "\<exists>d \<in> set dcenters. getitem d ''name'' = Inr (PStr datacenter)"
  shows "\<exists>pre d post i. dcenters = pre @ d # post \<and>
           (\<forall>x \<in> set pre. getitem x ''name'' \<noteq> Inr (PStr datacenter)) \<and>
           getitem d ''name'' = Inr (PStr datacenter) \<and> getitem d ''id'' = Inr i \<and>
           get_location client datacenter = (Inr i, [GetDataCenters])"
proof -
  from assms(3) obtain pre d post where split: "dcenters = pre @ d # post"
    and d: "getitem d ''name'' = Inr (PStr datacenter)"
    and pre: "\<forall>x \<in> set pre. getitem x ''name'' \<noteq> Inr (PStr datacenter)"
    using split_list_first_prop [of dcenters "\<lambda>d. getitem d ''name'' = Inr (PStr datacenter)"]
    by blast
  from assms(2) split obtain i where i: "getitem d ''id'' = Inr i"
    by auto
  from assms(2) split pre
  have "\<forall>x \<in> set pre. \<exists>n. getitem x ''name'' = Inr n \<and> n \<noteq> PStr datacenter"
    by (metis Un_iff list.set_intros(2) set_append)
  then have "get_location_loop dcenters datacenter = Inr i"
    using d i split by (simp add: get_location_loop_found)
  then have "get_location client datacenter = (Inr i, [GetDataCenters])"
    using assms(1) by (simp add: get_location_def)
  with split d pre i show ?thesis
    by blast
qed

text \<open>
  C6. When the remote call returns datacenter records (each with a name and an id):
  if no record has the given name, \<open>get_location\<close> returns the string
  \<^verbatim>\<open>FIRST_AVAILABLE\<close> and raises nothing; if some record has it, \<open>get_location\<close>
  returns the id of the first record of that name.
\<close>

theorem get_location_resolves:
  assumes "client GetDataCenters = Inr (PList dcenters)"
    and "\<forall>d \<in> set dcenters. \<exists>n i. getitem d ''name'' = Inr n \<and> getitem d ''id'' = Inr i"
  shows "((\<forall>d \<in> set dcenters. getitem d ''name'' \<noteq> Inr (PStr datacenter)) \<longrightarrow>
            get_location client datacenter =
              (Inr (PStr ''FIRST_AVAILABLE''), [GetDataCenters])) \<and>
         ((\<exists>d \<in> set dcenters. getitem d ''name'' = Inr (PStr datacenter)) \<longrightarrow>
            (\<exists>pre d post i. dcenters = pre @ d # post \<and>
               (\<forall>x \<in> set pre. getitem x ''name'' \<noteq> Inr (PStr datacenter)) \<and>
               getitem d ''name'' = Inr (PStr datacenter) \<and> getitem d ''id'' = Inr i \<and>
               get_location client datacenter = (Inr i, [GetDataCenters])))"
  using assms get_location_unknown [of client dcenters datacenter]
    get_location_known [of client dcenters datacenter]
  by blast

section \<open>cancel\_lb\<close>

text \<open>
  C4, as amended. A call of \<open>cancel_lb\<close> whose billing-item lookup returns a record with
  an \<^verbatim>\<open>id\<close> entry issues exactly two remote calls, in this order: the lookup for the
  load-balancer id, then the cancel call for the id read from the lookup's result. A call
  whose lookup faults or returns nothing with an \<^verbatim>\<open>id\<close> entry issues the lookup only.
\<close>

theorem cancel_lb_two_calls:
  "(client (GetBillingItem loadbal_id) = Inr lb_billing \<and>
    getitem lb_billing ''id'' = Inr billing_id \<longrightarrow>
      cancel_lb client loadbal_id =
        (client (CancelService billing_id),
         [GetBillingItem loadbal_id, CancelService billing_id])) \<and>
   ((\<forall>b x. client (GetBillingItem loadbal_id) = Inr b \<longrightarrow> getitem b ''id'' \<noteq> Inr x) \<longrightarrow>
      snd (cancel_lb client loadbal_id) = [GetBillingItem loadbal_id])"
proof (intro conjI impI)
  assume "client (GetBillingItem loadbal_id) = Inr lb_billing \<and>
          getitem lb_billing ''id'' = Inr billing_id"
  then show "cancel_lb client loadbal_id =
        (client (CancelService billing_id),
         [GetBillingItem loadbal_id, CancelService billing_id])"
    by (simp add: cancel_lb_def)
next
  assume no: "\<forall>b x. client (GetBillingItem loadbal_id) = Inr b \<longrightarrow> getitem b ''id'' \<noteq> Inr x"
  show "snd (cancel_lb client loadbal_id) = [GetBillingItem loadbal_id]"
  proof (cases "client (GetBillingItem loadbal_id)")
    case (Inl e)
    then show ?thesis by (simp add: cancel_lb_def)
  next
    case (Inr b)
    with no have "\<forall>x. getitem b ''id'' \<noteq> Inr x" by blast
    then obtain e where "getitem b ''id'' = Inl e"
      by (cases "getitem b ''id''") auto
    with Inr show ?thesis by (simp add: cancel_lb_def)
  qed
qed

text \<open>
  C5, as amended. When the lookup returns no billing item (\<^verbatim>\<open>None\<close>, an empty string
  or an empty record), \<open>cancel_lb\<close> raises a local error at the subscript that reads the
  id, and the lookup is the only remote call it issues.
\<close>

theorem cancel_lb_local_error:
  assumes "client (GetBillingItem loadbal_id) = Inr lb_billing"
    and "lb_billing = PNone \<or> lb_billing = PStr [] \<or> lb_billing = PDict []"
  shows "cancel_lb client loadbal_id =
           (Inl (if lb_billing = PDict [] then KeyError else TypeError),
            [GetBillingItem loadbal_id])"
  using assms by (auto simp: cancel_lb_def)

section \<open>edit\_service\<close>


lemma edit_service_run:
  assumes "query_filter (PInt service_id) = Inr qf"
    and "client (GetVirtualServers loadbal_id (edit_service_filter qf) edit_service_mask)
           = Inr virtual_servers"
  shows "edit_service query_filter client loadbal_id service_id ip_address_id port enabled
           hc_type weight =
         (case edit_service_update service_id ip_address_id port enabled hc_type weight
                 virtual_servers of
            Inl e \<Rightarrow>
              (Inl e, [GetVirtualServers loadbal_id (edit_service_filter qf) edit_service_mask])
          | Inr virtual_servers' \<Rightarrow>
              (client (EditObject (PDict [(''virtualServers'', virtual_servers')]) loadbal_id),
               [GetVirtualServers loadbal_id (edit_service_filter qf) edit_service_mask,
                EditObject (PDict [(''virtualServers'', virtual_servers')]) loadbal_id]))"
proof (cases "edit_service_update service_id ip_address_id port enabled hc_type weight
                virtual_servers")
  case (Inl e)
  with assms show ?thesis
    by (simp add: edit_service_def)
next
  case (Inr virtual_servers')
  with assms show ?thesis
    by (simp add: edit_service_def Let_def)
qed

lemma edit_service_submitted:
  assumes "query_filter (PInt service_id) = Inr qf"
    and "client (GetVirtualServers loadbal_id (edit_service_filter qf) edit_service_mask)
           = Inr virtual_servers"
    and "EditObject payload i
           \<in> set (snd (edit_service query_filter client loadbal_id service_id ip_address_id port
                         enabled hc_type weight))"
  shows "\<exists>virtual_servers'.
           edit_service_update service_id ip_address_id port enabled hc_type weight
             virtual_servers = Inr virtual_servers' \<and>
           payload = PDict [(''virtualServers'', virtual_servers')] \<and> i = loadbal_id"
proof (cases "edit_service_update service_id ip_address_id port enabled hc_type weight
                virtual_servers")
  case (Inl e)
  with assms(3) show ?thesis
    unfolding edit_service_run [of query_filter service_id qf client loadbal_id virtual_servers,
        OF assms(1,2)]
    by simp
next
  case (Inr virtual_servers')
  with assms(3) show ?thesis
    unfolding edit_service_run [of query_filter service_id qf client loadbal_id virtual_servers,
        OF assms(1,2)]
    by simp
qed

lemma edit_service_body_other:
  assumes "getitem service ''id'' = Inr i" and "i \<noteq> PInt service_id"
  shows "edit_service_body service_id ip_address_id port enabled hc_type weight service
           = Inr service"
  using assms by (simp add: edit_service_body_def)



lemma cond_setitem_getitem:
  assumes "(if c then setitem s k x else Inr s) = Inr s'"
  shows "getitem s' k' = (if c \<and> k' = k then Inr x else getitem s k')"
proof (cases c)
  case True
  with assms have "setitem s k x = Inr s'" by simp
  from getitem_setitem [OF this] True show ?thesis by simp
next
  case False
  with assms show ?thesis by simp
qed



lemma edit_service_body_port:
  assumes "edit_service_body service_id 0 port (-1) (-1) (-1) service = Inr service'"
    and "port \<noteq> -1"
  shows "if getitem service ''id'' = Inr (PInt service_id)
         then without [''port''] service' = without [''port''] service \<and>
              getitem service' ''port'' = Inr (PInt port)
         else service' = service"
proof -
  from assms obtain sid where sid: "getitem service ''id'' = Inr sid"
    by (auto simp: edit_service_body_def bindE_eq_Inr)
  show ?thesis
  proof (cases "sid = PInt service_id")
    case False
    with assms sid show ?thesis by (simp add: edit_service_body_def)
  next
    case True
    with assms sid have s: "setitem service ''port'' (PInt port) = Inr service'"
      by (simp add: edit_service_body_def bindE_eq_Inr)
    have "without [''port''] service' = without [''port''] service"
      by (rule without_setitem [OF s]) simp
    moreover have "getitem service' ''port'' = Inr (PInt port)"
      using getitem_setitem [OF s, of "''port''"] by simp
    ultimately show ?thesis using sid True by simp
  qed
qed

lemma edit_service_update_shape:
  assumes "edit_service_update service_id ip_address_id port enabled hc_type weight
             virtual_servers = Inr virtual_servers'"
  shows "\<exists>v v' rest x x'.
           virtual_servers = PList (v # rest) \<and> virtual_servers' = PList (v' # rest) \<and>
           first_group_only [] [''services''] v v' \<and>
           first_group_services virtual_servers = Inr x \<and>
           first_group_services virtual_servers' = Inr x' \<and>
           for_each (edit_service_body service_id ip_address_id port enabled hc_type weight) x
             = Inr x'"
proof -
  let ?body = "edit_service_body service_id ip_address_id port enabled hc_type weight"
  from assms obtain d rest g gs x x' where vs: "virtual_servers = PList (PDict d # rest)"
    and sg: "map_of d ''serviceGroups'' = Some (PList (PDict g # gs))"
    and sv: "map_of g ''services'' = Some x" and f: "for_each ?body x = Inr x'"
    and vs': "virtual_servers' = PList (PDict (AList.update ''serviceGroups''
                (PList (PDict (AList.update ''services'' x' g) # gs)) d) # rest)"
    unfolding edit_service_update_def first_group_path by blast
  let ?g' = "PDict (AList.update ''services'' x' g)"
  let ?v' = "PDict (AList.update ''serviceGroups'' (PList (?g' # gs)) d)"
  have w: "without [''serviceGroups''] ?v' = without [''serviceGroups''] (PDict d)"
    by (rule without_update) simp
  have wg: "without [''services''] ?g' = without [''services''] (PDict g)"
    by (rule without_update) simp
  have "first_group_only [] [''services''] (PDict d) ?v'"
    using w wg sg by (intro first_group_only_listI [where g = "PDict g" and gs = gs and g' = ?g'])
      (simp_all add: update_conv')
  moreover have "first_group_services virtual_servers = Inr x"
    unfolding first_group_services_eq_Inr using vs sg sv by blast
  moreover have "first_group_services virtual_servers' = Inr x'"
    unfolding first_group_services_eq_Inr vs' by (simp add: update_conv')
  ultimately show ?thesis
    using vs vs' f by blast
qed


text \<open>
  C3. With a port other than -1 and every other parameter at its sentinel, the payload
  \<open>edit_service\<close> submits differs from the fetched list only inside the services of the
  first service group of the first virtual server: there, a service whose id is the
  target id has the new port and is otherwise as fetched, and every other service is
  as fetched.
\<close>

theorem edit_service_port_only:
  assumes "query_filter (PInt service_id) = Inr qf"
    and "client (GetVirtualServers loadbal_id (edit_service_filter qf) edit_service_mask)
           = Inr virtual_servers"
    and "first_group_services virtual_servers = Inr (PList services)"
    and "port \<noteq> -1"
    and "EditObject payload i
           \<in> set (snd (edit_service query_filter client loadbal_id service_id 0 port (-1) (-1)
                         (-1)))"
  shows "\<exists>v v' rest services'.
           virtual_servers = PList (v # rest) \<and>
           payload = PDict [(''virtualServers'', PList (v' # rest))] \<and>
           first_group_only [] [''services''] v v' \<and>
           first_group_services (PList (v' # rest)) = Inr (PList services') \<and>
           list_all2
             (\<lambda>s s'. if getitem s ''id'' = Inr (PInt service_id)
                      then without [''port''] s' = without [''port''] s \<and>
                           getitem s' ''port'' = Inr (PInt port)
                      else s' = s)
             services services'"
proof -
  let ?body = "edit_service_body service_id 0 port (-1) (-1) (-1)"
  from edit_service_submitted [OF assms(1,2,5)]
  obtain virtual_servers' where
    u: "edit_service_update service_id 0 port (-1) (-1) (-1) virtual_servers
          = Inr virtual_servers'"
    and p: "payload = PDict [(''virtualServers'', virtual_servers')]"
    by blast
  from edit_service_update_shape [OF u] assms(3)
  obtain v v' rest x' where vs: "virtual_servers = PList (v # rest)"
    and vs': "virtual_servers' = PList (v' # rest)"
    and fr: "first_group_only [] [''services''] v v'"
    and s': "first_group_services virtual_servers' = Inr x'"
    and f: "for_each ?body (PList services) = Inr x'"
    by auto
  from f obtain services' where x': "x' = PList services'"
    and l: "list_all2 (\<lambda>s s'. ?body s = Inr s') services services'"
    by (auto simp: for_each_eq_Inr)
  from l have "list_all2
             (\<lambda>s s'. if getitem s ''id'' = Inr (PInt service_id)
                      then without [''port''] s' = without [''port''] s \<and>
                           getitem s' ''port'' = Inr (PInt port)
                      else s' = s)
             services services'"
    by (rule list_all2_mono) (rule edit_service_body_port [OF _ assms(4)])
  with vs vs' fr s' x' p show ?thesis by auto
qed

text \<open>
  C9, as amended. When the fetched list has a first virtual server with a first service
  group whose services all carry an id other than the target id, \<open>edit_service\<close> changes
  nothing, raises nothing and submits the fetched list as it is, for any parameters.
  When the fetched list is empty, the first subscript raises an index error and nothing
  is submitted.
\<close>

theorem edit_service_unknown_id_submits_unchanged:
  assumes "query_filter (PInt service_id) = Inr qf"
    and "client (GetVirtualServers loadbal_id (edit_service_filter qf) edit_service_mask)
           = Inr virtual_servers"
  shows "(first_group_services virtual_servers = Inr (PList services) \<and>
          (\<forall>s \<in> set services. \<exists>i. getitem s ''id'' = Inr i \<and> i \<noteq> PInt service_id) \<longrightarrow>
            edit_service query_filter client loadbal_id service_id ip_address_id port enabled
              hc_type weight =
            (client (EditObject (PDict [(''virtualServers'', virtual_servers)]) loadbal_id),
             [GetVirtualServers loadbal_id (edit_service_filter qf) edit_service_mask,
              EditObject (PDict [(''virtualServers'', virtual_servers)]) loadbal_id])) \<and>
         (virtual_servers = PList [] \<longrightarrow>
            edit_service query_filter client loadbal_id service_id ip_address_id port enabled
              hc_type weight =
            (Inl IndexError,
             [GetVirtualServers loadbal_id (edit_service_filter qf) edit_service_mask]))"
proof (intro conjI impI)
  let ?body = "edit_service_body service_id ip_address_id port enabled hc_type weight"
  assume a: "first_group_services virtual_servers = Inr (PList services) \<and>
          (\<forall>s \<in> set services. \<exists>i. getitem s ''id'' = Inr i \<and> i \<noteq> PInt service_id)"
  then obtain d rest g gs where vs: "virtual_servers = PList (PDict d # rest)"
    and sg: "map_of d ''serviceGroups'' = Some (PList (PDict g # gs))"
    and sv: "map_of g ''services'' = Some (PList services)"
    unfolding first_group_services_eq_Inr by blast
  from a have "\<forall>s \<in> set services. ?body s = Inr s"
    by (auto simp: edit_service_body_other)
  then have f: "for_each ?body (PList services) = Inr (PList services)"
    by (rule for_each_list_same)
  have "edit_service_update service_id ip_address_id port enabled hc_type weight
          virtual_servers = Inr virtual_servers"
    unfolding edit_service_update_def first_group_path
    using vs sg sv f by (simp add: update_triv)
  then show "edit_service query_filter client loadbal_id service_id ip_address_id port enabled
              hc_type weight =
            (client (EditObject (PDict [(''virtualServers'', virtual_servers)]) loadbal_id),
             [GetVirtualServers loadbal_id (edit_service_filter qf) edit_service_mask,
              EditObject (PDict [(''virtualServers'', virtual_servers)]) loadbal_id])"
    unfolding edit_service_run [of query_filter service_id qf client loadbal_id virtual_servers,
        OF assms]
    by simp
next
  assume "virtual_servers = PList []"
  then have "edit_service_update service_id ip_address_id port enabled hc_type weight
          virtual_servers = Inl IndexError"
    by (simp add: edit_service_update_def at_first_def)
  then show "edit_service query_filter client loadbal_id service_id ip_address_id port enabled
              hc_type weight =
            (Inl IndexError,
             [GetVirtualServers loadbal_id (edit_service_filter qf) edit_service_mask])"
    unfolding edit_service_run [of query_filter service_id qf client loadbal_id virtual_servers,
        OF assms]
    by simp
qed

section \<open>Updates of nested service groups\<close>

lemma lb_update_frame:
  assumes "at_key ''virtualServers'' (for_each body) lb = Inr lb'"
    and "getitem lb ''virtualServers'' = Inr (PList vss)"
  shows "without [''virtualServers''] lb' = without [''virtualServers''] lb \<and>
         (\<exists>vss'. getitem lb' ''virtualServers'' = Inr (PList vss') \<and>
            list_all2 (\<lambda>v v'. body v = Inr v') vss vss')"
proof -
  from assms(1) obtain d x x' where lb: "lb = PDict d" and m: "map_of d ''virtualServers'' = Some x"
    and f: "for_each body x = Inr x'"
    and lb': "lb' = PDict (AList.update ''virtualServers'' x' d)"
    unfolding at_key_eq_Inr by blast
  from assms(2) lb m have x: "x = PList vss" by simp
  with f obtain vss' where x': "x' = PList vss'"
    and l: "list_all2 (\<lambda>v v'. body v = Inr v') vss vss'"
    by (auto simp: for_each_eq_Inr)
  have "without [''virtualServers''] lb' = without [''virtualServers''] lb"
    unfolding lb lb' by (rule without_update) simp
  moreover have "getitem lb' ''virtualServers'' = Inr (PList vss')"
    unfolding lb' x' by (simp add: update_conv')
  ultimately show ?thesis using l by blast
qed

lemma add_service_submitted:
  assumes "client (GetObject loadbal_id lb_mask) = Inr load_balancer"
    and "EditObject payload i
           \<in> set (snd (add_service client loadbal_id service_group_id ip_address_id port enabled
                         hc_type weight))"
  shows "add_service_update service_group_id ip_address_id port enabled hc_type weight
           load_balancer = Inr payload \<and> i = loadbal_id"
proof (cases "add_service_update service_group_id ip_address_id port enabled hc_type weight
                load_balancer")
  case (Inl e)
  with assms show ?thesis by (simp add: add_service_def lb_mask_def)
next
  case (Inr load_balancer')
  with assms show ?thesis by (simp add: add_service_def lb_mask_def)
qed

lemma edit_service_group_submitted:
  assumes "client (GetObject loadbal_id lb_mask) = Inr load_balancer"
    and "EditObject payload i
           \<in> set (snd (edit_service_group client loadbal_id group_id allocation port routing_type
                         routing_method))"
  shows "edit_service_group_update group_id allocation port routing_type routing_method
           load_balancer = Inr payload \<and> i = loadbal_id"
proof (cases "edit_service_group_update group_id allocation port routing_type routing_method
                load_balancer")
  case (Inl e)
  with assms show ?thesis by (simp add: edit_service_group_def lb_mask_def)
next
  case (Inr load_balancer')
  with assms show ?thesis by (simp add: edit_service_group_def lb_mask_def)
qed

lemma py_append_eq_Inr: "py_append v x = Inr v' \<longleftrightarrow> (\<exists>xs. v = PList xs \<and> v' = PList (xs @ [x]))"
  by (cases v) auto

lemma add_service_body_frame:
  assumes "add_service_body service_group_id ip_address_id port enabled hc_type weight v = Inr v'"
  shows "if getitem v ''id'' = Inr (PInt service_group_id)
         then first_group_only [] [''services''] v v' \<and>
              (\<exists>ss. first_group_services (PList [v]) = Inr (PList ss) \<and>
                 first_group_services (PList [v']) =
                   Inr (PList (ss @ [service_template ip_address_id port enabled hc_type weight])))
         else v' = v"
proof -
  let ?t = "service_template ip_address_id port enabled hc_type weight"
  from assms obtain vid where vid: "getitem v ''id'' = Inr vid"
    by (auto simp: add_service_body_def bindE_eq_Inr)
  show ?thesis
  proof (cases "vid = PInt service_group_id")
    case False
    with assms vid show ?thesis by (simp add: add_service_body_def)
  next
    case True
    with assms vid
    have "at_key ''serviceGroups'' (at_first (at_key ''services''
            (\<lambda>services. py_append services ?t))) v = Inr v'"
      by (simp add: add_service_body_def)
    then obtain d g gs ss where v: "v = PDict d"
      and sg: "map_of d ''serviceGroups'' = Some (PList (PDict g # gs))"
      and sv: "map_of g ''services'' = Some (PList ss)"
      and v': "v' = PDict (AList.update ''serviceGroups''
                (PList (PDict (AList.update ''services'' (PList (ss @ [?t])) g) # gs)) d)"
      unfolding group_path py_append_eq_Inr by blast
    let ?g' = "PDict (AList.update ''services'' (PList (ss @ [?t])) g)"
    have w: "without [''serviceGroups''] v' = without [''serviceGroups''] v"
      unfolding v v' by (rule without_update) simp
    have wg: "without [''services''] ?g' = without [''services''] (PDict g)"
      by (rule without_update) simp
    have fr: "first_group_only [] [''services''] v v'"
      using w wg sg unfolding v v'
      by (intro first_group_only_listI [where g = "PDict g" and gs = gs and g' = ?g'])
        (simp_all add: update_conv')
    have a: "first_group_services (PList [v]) = Inr (PList ss)"
      unfolding first_group_services_eq_Inr using v sg sv by blast
    have b: "first_group_services (PList [v']) = Inr (PList (ss @ [?t]))"
      unfolding first_group_services_eq_Inr v' by (simp add: update_conv')
    from fr a b vid True show ?thesis by auto
  qed
qed

lemma cond_setitem_without:
  assumes "(if c then setitem s k x else Inr s) = Inr s'" and "k \<in> set ks"
  shows "without ks s' = without ks s"
proof (cases c)
  case True
  with assms(1) have "setitem s k x = Inr s'" by simp
  then show ?thesis using assms(2) by (rule without_setitem)
next
  case False
  with assms(1) show ?thesis by simp
qed

lemma edit_service_group_body_frame:
  assumes "edit_service_group_body group_id allocation port routing_type routing_method v
             = Inr v'"
  shows "if getitem v ''id'' = Inr (PInt group_id)
         then first_group_only [''allocation'', ''port''] [''routingTypeId'', ''routingMethodId'']
                v v'
         else v' = v"
proof -
  let ?vks = "[''serviceGroups'', ''allocation'', ''port'']"
  let ?gks = "[''routingTypeId'', ''routingMethodId'']"
  from assms obtain vid where vid: "getitem v ''id'' = Inr vid"
    by (auto simp: edit_service_group_body_def bindE_eq_Inr)
  show ?thesis
  proof (cases "vid = PInt group_id")
    case False
    with assms vid show ?thesis by (simp add: edit_service_group_body_def)
  next
    case True
    with assms vid obtain sgs service_group v1 v2 g1 g2 where
      sgs: "getitem v ''serviceGroups'' = Inr sgs"
      and g0: "getitem0 sgs = Inr service_group"
      and 1: "(if allocation \<noteq> -1 then setitem v ''allocation'' (PInt allocation) else Inr v)
                = Inr v1"
      and 2: "(if port \<noteq> 0 then setitem v1 ''port'' (PInt port) else Inr v1) = Inr v2"
      and 3: "(if routing_type \<noteq> 0
               then setitem service_group ''routingTypeId'' (PInt routing_type)
               else Inr service_group) = Inr g1"
      and 4: "(if routing_method \<noteq> 0
               then setitem g1 ''routingMethodId'' (PInt routing_method)
               else Inr g1) = Inr g2"
      and 5: "at_key ''serviceGroups'' (at_first (\<lambda>g. Inr g2)) v2 = Inr v'"
      unfolding edit_service_group_body_def by (simp add: bindE_eq_Inr) blast
    have "without ?vks v1 = without ?vks v"
      by (rule cond_setitem_without [OF 1]) simp
    moreover have "without ?vks v2 = without ?vks v1"
      by (rule cond_setitem_without [OF 2]) simp
    moreover have "without ?vks v' = without ?vks v2"
      by (rule without_at_key [OF 5]) simp
    ultimately have w: "without ?vks v' = without ?vks v"
      by simp
    have "without ?gks g1 = without ?gks service_group"
      by (rule cond_setitem_without [OF 3]) simp
    moreover have "without ?gks g2 = without ?gks g1"
      by (rule cond_setitem_without [OF 4]) simp
    ultimately have wg: "without ?gks g2 = without ?gks service_group"
      by simp
    have "getitem v2 ''serviceGroups'' = getitem v ''serviceGroups''"
      using cond_setitem_getitem [OF 1, of "''serviceGroups''"]
        cond_setitem_getitem [OF 2, of "''serviceGroups''"]
      by simp
    with sgs have sgs2: "getitem v2 ''serviceGroups'' = Inr sgs"
      by simp
    from 5 sgs2 obtain x' where x': "at_first (\<lambda>g. Inr g2) sgs = Inr x'"
      and get': "getitem v' ''serviceGroups'' = Inr x'"
      unfolding at_key_eq_Inr by (auto simp: update_conv')
    from x' consider
      (list) y ys where "sgs = PList (y # ys)" "x' = PList (g2 # ys)"
      | (str) "x' = sgs"
      unfolding at_first_eq_Inr by blast
    then have "first_group_only [''allocation'', ''port''] ?gks v v'"
    proof cases
      case list
      with g0 have "service_group = y" by simp
      with wg have "without ?gks g2 = without ?gks y" by simp
      with w sgs get' list show ?thesis
        by (intro first_group_only_listI [where g = y and gs = ys and g' = g2]) simp_all
    next
      case str
      with w sgs get' show ?thesis
        by (intro first_group_only_sameI) simp_all
    qed
    with vid True show ?thesis by simp
  qed
qed

text \<open>
  C10. Whatever the three methods submit differs from the fetched snapshot only inside
  first service groups. \<open>edit_service\<close> leaves every virtual server but the first as
  fetched, and in the first one changes at most the \<^verbatim>\<open>services\<close> entry of its first
  service group. \<open>add_service\<close> leaves every virtual server with another id as fetched,
  and in a matching one changes only the \<^verbatim>\<open>services\<close> entry of its first service group,
  which is the fetched list followed by the new service. \<open>edit_service_group\<close> leaves
  every virtual server with another id as fetched, and in a matching one changes at
  most its own allocation and port and the routing type and method of its first service
  group. A service or group with the matching id anywhere else is submitted as fetched.
\<close>

theorem nested_updates_first_group_only:
  assumes "query_filter (PInt service_id) = Inr qf"
    and "client (GetVirtualServers loadbal_id (edit_service_filter qf) edit_service_mask)
           = Inr virtual_servers"
    and "client (GetObject loadbal_id lb_mask) = Inr load_balancer"
    and "getitem load_balancer ''virtualServers'' = Inr (PList vss)"
  shows "(EditObject payload i
            \<in> set (snd (edit_service query_filter client loadbal_id service_id ip_address_id
                          port enabled hc_type weight)) \<longrightarrow>
          (\<exists>v v' rest. virtual_servers = PList (v # rest) \<and>
             payload = PDict [(''virtualServers'', PList (v' # rest))] \<and>
             first_group_only [] [''services''] v v')) \<and>
         (EditObject payload i
            \<in> set (snd (add_service client loadbal_id group_id ip_address_id port enabled
                          hc_type weight)) \<longrightarrow>
          without [''virtualServers''] payload = without [''virtualServers''] load_balancer \<and>
          (\<exists>vss'. getitem payload ''virtualServers'' = Inr (PList vss') \<and>
             list_all2
               (\<lambda>v v'. if getitem v ''id'' = Inr (PInt group_id)
                        then first_group_only [] [''services''] v v' \<and>
                             (\<exists>ss. first_group_services (PList [v]) = Inr (PList ss) \<and>
                                first_group_services (PList [v']) =
                                  Inr (PList (ss @ [service_template ip_address_id port enabled
                                                      hc_type weight])))
                        else v' = v)
               vss vss')) \<and>
         (EditObject payload i
            \<in> set (snd (edit_service_group client loadbal_id group_id allocation port
                          routing_type routing_method)) \<longrightarrow>
          without [''virtualServers''] payload = without [''virtualServers''] load_balancer \<and>
          (\<exists>vss'. getitem payload ''virtualServers'' = Inr (PList vss') \<and>
             list_all2
               (\<lambda>v v'. if getitem v ''id'' = Inr (PInt group_id)
                        then first_group_only [''allocation'', ''port'']
                               [''routingTypeId'', ''routingMethodId''] v v'
                        else v' = v)
               vss vss'))"
proof (intro conjI impI)
  assume "EditObject payload i
            \<in> set (snd (edit_service query_filter client loadbal_id service_id ip_address_id
                          port enabled hc_type weight))"
  from edit_service_submitted [OF assms(1,2) this]
  obtain virtual_servers' where
    u: "edit_service_update service_id ip_address_id port enabled hc_type weight
          virtual_servers = Inr virtual_servers'"
    and p: "payload = PDict [(''virtualServers'', virtual_servers')]"
    by blast
  from edit_service_update_shape [OF u] p
  show "\<exists>v v' rest. virtual_servers = PList (v # rest) \<and>
          payload = PDict [(''virtualServers'', PList (v' # rest))] \<and>
          first_group_only [] [''services''] v v'"
    by blast
next
  assume "EditObject payload i
            \<in> set (snd (add_service client loadbal_id group_id ip_address_id port enabled
                          hc_type weight))"
  from add_service_submitted [OF assms(3) this]
  have "at_key ''virtualServers''
          (for_each (add_service_body group_id ip_address_id port enabled hc_type weight))
          load_balancer = Inr payload"
    by (simp add: add_service_update_def)
  from lb_update_frame [OF this assms(4)]
  obtain vss' where w: "without [''virtualServers''] payload
                          = without [''virtualServers''] load_balancer"
    and g: "getitem payload ''virtualServers'' = Inr (PList vss')"
    and l: "list_all2
              (\<lambda>v v'. add_service_body group_id ip_address_id port enabled hc_type weight v
                         = Inr v') vss vss'"
    by blast
  from w show "without [''virtualServers''] payload
                 = without [''virtualServers''] load_balancer" .
  from l have "list_all2
               (\<lambda>v v'. if getitem v ''id'' = Inr (PInt group_id)
                        then first_group_only [] [''services''] v v' \<and>
                             (\<exists>ss. first_group_services (PList [v]) = Inr (PList ss) \<and>
                                first_group_services (PList [v']) =
                                  Inr (PList (ss @ [service_template ip_address_id port enabled
                                                      hc_type weight])))
                        else v' = v)
               vss vss'"
    by (rule list_all2_mono) (rule add_service_body_frame)
  with g show "\<exists>vss'. getitem payload ''virtualServers'' = Inr (PList vss') \<and>
             list_all2
               (\<lambda>v v'. if getitem v ''id'' = Inr (PInt group_id)
                        then first_group_only [] [''services''] v v' \<and>
                             (\<exists>ss. first_group_services (PList [v]) = Inr (PList ss) \<and>
                                first_group_services (PList [v']) =
                                  Inr (PList (ss @ [service_template ip_address_id port enabled
                                                      hc_type weight])))
                        else v' = v)
               vss vss'"
    by blast
next
  assume "EditObject payload i
            \<in> set (snd (edit_service_group client loadbal_id group_id allocation port
                          routing_type routing_method))"
  from edit_service_group_submitted [OF assms(3) this]
  have "at_key ''virtualServers''
          (for_each (edit_service_group_body group_id allocation port routing_type
                       routing_method))
          load_balancer = Inr payload"
    by (simp add: edit_service_group_update_def)
  from lb_update_frame [OF this assms(4)]
  obtain vss' where w: "without [''virtualServers''] payload
                          = without [''virtualServers''] load_balancer"
    and g: "getitem payload ''virtualServers'' = Inr (PList vss')"
    and l: "list_all2
              (\<lambda>v v'. edit_service_group_body group_id allocation port routing_type
                         routing_method v = Inr v') vss vss'"
    by blast
  from w show "without [''virtualServers''] payload
                 = without [''virtualServers''] load_balancer" .
  from l have "list_all2
               (\<lambda>v v'. if getitem v ''id'' = Inr (PInt group_id)
                        then first_group_only [''allocation'', ''port'']
                               [''routingTypeId'', ''routingMethodId''] v v'
                        else v' = v)
               vss vss'"
    by (rule list_all2_mono) (rule edit_service_group_body_frame)
  with g show "\<exists>vss'. getitem payload ''virtualServers'' = Inr (PList vss') \<and>
             list_all2
               (\<lambda>v v'. if getitem v ''id'' = Inr (PInt group_id)
                        then first_group_only [''allocation'', ''port'']
                               [''routingTypeId'', ''routingMethodId''] v v'
                        else v' = v)
               vss vss'"
    by blast
qed

section \<open>add\_service\_group\<close>

text \<open>
  C7. When the fetched load balancer has a list of N virtual servers,
  \<open>add_service_group\<close> submits the load balancer with a list of N + 1 virtual servers:
  the old ones followed by one entry that carries the supplied port and allocation and a
  single service group with the supplied routing type id and routing method id. Every
  other entry of the load balancer is submitted as fetched.
\<close>

theorem add_service_group_appends:
  assumes "client (GetObject lb_id lb_mask) = Inr load_balancer"
    and "getitem load_balancer ''virtualServers'' = Inr (PList virtual_servers)"
  shows "\<exists>payload.
           add_service_group client lb_id allocation port routing_type routing_method =
             (client (EditObject payload lb_id),
              [GetObject lb_id lb_mask, EditObject payload lb_id]) \<and>
           without [''virtualServers''] payload = without [''virtualServers''] load_balancer \<and>
           getitem payload ''virtualServers'' =
             Inr (PList (virtual_servers @
               [PDict [(''port'', PInt port), (''allocation'', PInt allocation),
                       (''serviceGroups'',
                          PList [PDict [(''routingTypeId'', PInt routing_type),
                                        (''routingMethodId'', PInt routing_method)]])]])) \<and>
           length (virtual_servers @
               [PDict [(''port'', PInt port), (''allocation'', PInt allocation),
                       (''serviceGroups'',
                          PList [PDict [(''routingTypeId'', PInt routing_type),
                                        (''routingMethodId'', PInt routing_method)]])]])
             = length virtual_servers + 1"
proof -
  from assms(2) obtain d where d: "load_balancer = PDict d"
    and m: "map_of d ''virtualServers'' = Some (PList virtual_servers)"
    by (auto simp: getitem_eq_Inr)
  let ?vs' = "PList (virtual_servers @
                 [group_template allocation port routing_type routing_method])"
  let ?payload = "PDict (AList.update ''virtualServers'' ?vs' d)"
  have "at_key ''virtualServers''
          (\<lambda>virtual_servers. py_append virtual_servers
             (group_template allocation port routing_type routing_method)) load_balancer
        = Inr ?payload"
    using d m by (simp add: at_key_def)
  then have run: "add_service_group client lb_id allocation port routing_type routing_method =
      (client (EditObject ?payload lb_id), [GetObject lb_id lb_mask, EditObject ?payload lb_id])"
    using assms(1) by (simp add: add_service_group_def)
  have frame: "without [''virtualServers''] ?payload = without [''virtualServers''] load_balancer"
    unfolding d by (rule without_update) simp
  have entry: "getitem ?payload ''virtualServers'' = Inr ?vs'"
    by (simp add: update_conv')
  from run frame entry
  have "\<exists>payload.
          add_service_group client lb_id allocation port routing_type routing_method =
            (client (EditObject payload lb_id),
             [GetObject lb_id lb_mask, EditObject payload lb_id]) \<and>
          without [''virtualServers''] payload = without [''virtualServers''] load_balancer \<and>
          getitem payload ''virtualServers'' = Inr ?vs'"
    by blast
  then show ?thesis
    by (simp add: group_template_def)
qed

section \<open>reset\_service\_group\<close>

text \<open>
  The id the method reads can be read exactly when the response is a list whose first
  element is a record, whose \<^verbatim>\<open>serviceGroups\<close> entry is a list whose first element is
  a record, which has an \<^verbatim>\<open>id\<close> entry.
\<close>

lemma nested_id_eq_Inr:
  "bindE (getitem0 virtual_servers) (\<lambda>v.
     bindE (getitem v ''serviceGroups'') (\<lambda>gs.
     bindE (getitem0 gs) (\<lambda>g. getitem g ''id''))) = Inr x \<longleftrightarrow>
   (\<exists>d rest g gs. virtual_servers = PList (PDict d # rest) \<and>
      map_of d ''serviceGroups'' = Some (PList (PDict g # gs)) \<and> map_of g ''id'' = Some x)"
  unfolding bindE_eq_Inr getitem0_eq_Inr getitem_eq_Inr
  by auto

text \<open>
  C8. After the fetch of the virtual servers, filtered by the caller's \<open>group_id\<close>, a
  kick-all-connections call for an id \<open>x\<close> is among the calls of \<open>reset_service_group\<close>
  exactly when the response is a list whose first virtual server has a list of service
  groups whose first group has the id \<open>x\<close>; the method then issues the fetch and the
  kick for \<open>x\<close>, and nothing else. The caller's \<open>group_id\<close> only goes into the filter of
  the fetch. When the response has no such id the method raises after the fetch and
  kicks nothing; on an empty response the error is an index error.
\<close>

theorem reset_service_group_kicks_nested_id:
  assumes "query_filter group_id = Inr qf"
    and "client (GetVirtualServers loadbal_id
                   (PDict [(''virtualServers'', PDict [(''id'', qf)])])
                   ''mask[serviceGroups]'') = Inr virtual_servers"
  shows "(KickAllConnections x
            \<in> set (snd (reset_service_group query_filter client loadbal_id group_id))
           \<longleftrightarrow> (\<exists>d rest g gs. virtual_servers = PList (PDict d # rest) \<and>
                  map_of d ''serviceGroups'' = Some (PList (PDict g # gs)) \<and>
                  map_of g ''id'' = Some x)) \<and>
         ((\<exists>d rest g gs. virtual_servers = PList (PDict d # rest) \<and>
             map_of d ''serviceGroups'' = Some (PList (PDict g # gs)) \<and>
             map_of g ''id'' = Some x) \<longrightarrow>
            reset_service_group query_filter client loadbal_id group_id =
              (client (KickAllConnections x),
               [GetVirtualServers loadbal_id
                  (PDict [(''virtualServers'', PDict [(''id'', qf)])]) ''mask[serviceGroups]'',
                KickAllConnections x])) \<and>
         ((\<forall>y d rest g gs. virtual_servers = PList (PDict d # rest) \<longrightarrow>
             map_of d ''serviceGroups'' = Some (PList (PDict g # gs)) \<longrightarrow>
             map_of g ''id'' \<noteq> Some y) \<longrightarrow>
            (\<exists>e. reset_service_group query_filter client loadbal_id group_id =
              (Inl e,
               [GetVirtualServers loadbal_id
                  (PDict [(''virtualServers'', PDict [(''id'', qf)])])
                  ''mask[serviceGroups]'']))) \<and>
         (virtual_servers = PList [] \<longrightarrow>
            reset_service_group query_filter client loadbal_id group_id =
              (Inl IndexError,
               [GetVirtualServers loadbal_id
                  (PDict [(''virtualServers'', PDict [(''id'', qf)])])
                  ''mask[serviceGroups]'']))"
proof -
  let ?nested = "bindE (getitem0 virtual_servers) (\<lambda>v.
     bindE (getitem v ''serviceGroups'') (\<lambda>gs.
     bindE (getitem0 gs) (\<lambda>g. getitem g ''id'')))"
  let ?c = "GetVirtualServers loadbal_id
              (PDict [(''virtualServers'', PDict [(''id'', qf)])]) ''mask[serviceGroups]''"
  let ?run = "reset_service_group query_filter client loadbal_id group_id"
  have run: "?run = (case ?nested of
                       Inl e \<Rightarrow> (Inl e, [?c])
                     | Inr actual_id \<Rightarrow>
                         (client (KickAllConnections actual_id),
                          [?c, KickAllConnections actual_id]))"
    using assms by (simp add: reset_service_group_def Let_def)
  have shape: "\<And>y. ?nested = Inr y \<longleftrightarrow>
      (\<exists>d rest g gs. virtual_servers = PList (PDict d # rest) \<and>
         map_of d ''serviceGroups'' = Some (PList (PDict g # gs)) \<and> map_of g ''id'' = Some y)"
    by (rule nested_id_eq_Inr)
  have kick: "KickAllConnections x \<in> set (snd ?run) \<longleftrightarrow> ?nested = Inr x"
    unfolding run by (cases ?nested) auto
  have ok: "?nested = Inr x \<Longrightarrow>
      ?run = (client (KickAllConnections x), [?c, KickAllConnections x])"
    unfolding run by simp
  have none: "(\<forall>y. ?nested \<noteq> Inr y) \<Longrightarrow> \<exists>e. ?run = (Inl e, [?c])"
    unfolding run by (cases ?nested) auto
  have empty: "virtual_servers = PList [] \<Longrightarrow> ?run = (Inl IndexError, [?c])"
    unfolding run by simp
  show ?thesis
  proof (intro conjI impI)
    show "KickAllConnections x \<in> set (snd ?run) \<longleftrightarrow>
          (\<exists>d rest g gs. virtual_servers = PList (PDict d # rest) \<and>
             map_of d ''serviceGroups'' = Some (PList (PDict g # gs)) \<and>
             map_of g ''id'' = Some x)"
      unfolding kick by (rule shape)
  next
    assume "\<exists>d rest g gs. virtual_servers = PList (PDict d # rest) \<and>
             map_of d ''serviceGroups'' = Some (PList (PDict g # gs)) \<and>
             map_of g ''id'' = Some x"
    then have "?nested = Inr x" unfolding shape .
    then show "?run = (client (KickAllConnections x), [?c, KickAllConnections x])"
      by (rule ok)
  next
    assume "\<forall>y d rest g gs. virtual_servers = PList (PDict d # rest) \<longrightarrow>
             map_of d ''serviceGroups'' = Some (PList (PDict g # gs)) \<longrightarrow>
             map_of g ''id'' \<noteq> Some y"
    then have "\<forall>y. ?nested \<noteq> Inr y" unfolding shape by blast
    then show "\<exists>e. ?run = (Inl e, [?c])"
      by (rule none)
  next
    assume "virtual_servers = PList []"
    then show "?run = (Inl IndexError, [?c])"
      by (rule empty)
  qed
qed

section \<open>The properties on concrete runs\<close>

text \<open>
  Each property with a hypothesis is applied to one of the clients of the section on
  concrete runs, where its hypotheses hold; the runs that a sentence of the
  specification does not survive are evaluated next to them.
\<close>

text \<open>An unknown and a known datacenter name.\<close>

theorem get_location_resolves_witness:
  "get_location client_datacenters ''nowhere'' =
     (Inr (PStr ''FIRST_AVAILABLE''), [GetDataCenters]) \<and>
   (\<exists>pre d post i.
      [PDict [(''id'', PInt 3), (''name'', PStr ''ams01'')],
       PDict [(''id'', PInt 4), (''name'', PStr ''dal05'')]] = pre @ d # post \<and>
      getitem d ''name'' = Inr (PStr ''dal05'') \<and> getitem d ''id'' = Inr i \<and>
      get_location client_datacenters ''dal05'' = (Inr i, [GetDataCenters]))"
proof -
  let ?ds = "[PDict [(''id'', PInt 3), (''name'', PStr ''ams01'')],
              PDict [(''id'', PInt 4), (''name'', PStr ''dal05'')]]"
  have h1: "client_datacenters GetDataCenters = Inr (PList ?ds)"
    by (simp add: client_datacenters_def)
  have h2: "\<forall>d \<in> set ?ds. \<exists>n i. getitem d ''name'' = Inr n \<and> getitem d ''id'' = Inr i"
    by simp
  have none: "\<forall>d \<in> set ?ds. getitem d ''name'' \<noteq> Inr (PStr ''nowhere'')"
    by simp
  have some: "\<exists>d \<in> set ?ds. getitem d ''name'' = Inr (PStr ''dal05'')"
    by simp
  from get_location_resolves
         [where client = client_datacenters and datacenter = "''nowhere''", OF h1 h2] none
  have a: "get_location client_datacenters ''nowhere'' =
             (Inr (PStr ''FIRST_AVAILABLE''), [GetDataCenters])"
    by blast
  from get_location_resolves
         [where client = client_datacenters and datacenter = "''dal05''", OF h1 h2] some
  have b: "\<exists>pre d post i. ?ds = pre @ d # post \<and>
      getitem d ''name'' = Inr (PStr ''dal05'') \<and> getitem d ''id'' = Inr i \<and>
      get_location client_datacenters ''dal05'' = (Inr i, [GetDataCenters])"
    by blast
  from a b show ?thesis by blast
qed

text \<open>
  Cancelling with a billing item (two calls), and without one: the subscript raises
  after the lookup, whether the lookup returned \<^verbatim>\<open>None\<close> or an empty string.
\<close>

theorem cancel_lb_two_calls_witness:
  "cancel_lb client_billing 7 = (Inr (PInt 1), [GetBillingItem 7, CancelService (PInt 99)]) \<and>
   snd (cancel_lb client_empty_billing 7) = [GetBillingItem 7]"
proof -
  have h1: "client_billing (GetBillingItem 7) = Inr (PDict [(''id'', PInt 99)]) \<and>
            getitem (PDict [(''id'', PInt 99)]) ''id'' = Inr (PInt 99)"
    by (simp add: client_billing_def)
  have h2: "\<forall>b x. client_empty_billing (GetBillingItem 7) = Inr b \<longrightarrow> getitem b ''id'' \<noteq> Inr x"
    by (simp add: client_empty_billing_def)
  from cancel_lb_two_calls [where client = client_billing and loadbal_id = 7
         and lb_billing = "PDict [(''id'', PInt 99)]" and billing_id = "PInt 99"] h1
  have a: "cancel_lb client_billing 7 =
             (client_billing (CancelService (PInt 99)),
              [GetBillingItem 7, CancelService (PInt 99)])"
    by blast
  from cancel_lb_two_calls [where client = client_empty_billing and loadbal_id = 7] h2
  have b: "snd (cancel_lb client_empty_billing 7) = [GetBillingItem 7]"
    by blast
  from a b show ?thesis by (simp add: client_billing_def)
qed

theorem cancel_lb_one_call_counterexample:
  "length (snd (cancel_lb client_no_billing 7)) \<noteq> 2 \<and>
   snd (cancel_lb client_no_billing 7) = [GetBillingItem 7]"
  by (simp add: cancel_lb_def client_no_billing_def)

theorem cancel_lb_local_error_witness:
  "client_no_billing (GetBillingItem 7) = Inr PNone \<and>
   cancel_lb client_no_billing 7 = (Inl TypeError, [GetBillingItem 7])"
proof -
  have h1: "client_no_billing (GetBillingItem 7) = Inr PNone"
    by (simp add: client_no_billing_def)
  have h2: "PNone = PNone \<or> PNone = PStr [] \<or> PNone = PDict []"
    by simp
  from cancel_lb_local_error [where client = client_no_billing and loadbal_id = 7, OF h1 h2] h1
  show ?thesis
    by simp
qed

theorem cancel_lb_second_call_counterexample:
  "fst (cancel_lb client_empty_billing 7) = Inl TypeError \<and>
   fst (cancel_lb client_empty_billing 7) \<noteq> client_empty_billing (CancelService (PStr [])) \<and>
   snd (cancel_lb client_empty_billing 7) = [GetBillingItem 7]"
  by (simp add: cancel_lb_def client_empty_billing_def)

text \<open>A third virtual server added to the two of the example.\<close>

theorem add_service_group_appends_witness:
  "\<exists>payload.
     add_service_group client_lb 7 100 80 2 10 =
       (Inr (PInt 1), [GetObject 7 lb_mask, EditObject payload 7]) \<and>
     getitem payload ''id'' = Inr (PInt 7) \<and>
     getitem payload ''virtualServers'' =
       Inr (PList (example_server_list @
         [PDict [(''port'', PInt 80), (''allocation'', PInt 100),
                 (''serviceGroups'',
                    PList [PDict [(''routingTypeId'', PInt 2),
                                  (''routingMethodId'', PInt 10)]])]])) \<and>
     length example_server_list = 2"
proof -
  let ?lb = "PDict [(''id'', PInt 7), (''virtualServers'', example_servers)]"
  have h1: "client_lb (GetObject 7 lb_mask) = Inr ?lb"
    by (simp add: client_lb_def)
  have h2: "getitem ?lb ''virtualServers'' = Inr (PList example_server_list)"
    by (simp add: example_servers_def)
  have n: "length example_server_list = 2"
    by (simp add: example_server_list_def)
  from add_service_group_appends
         [where client = client_lb and lb_id = 7 and allocation = 100 and port = 80
            and routing_type = 2 and routing_method = 10, OF h1 h2]
  obtain payload where
    run: "add_service_group client_lb 7 100 80 2 10 =
            (client_lb (EditObject payload 7), [GetObject 7 lb_mask, EditObject payload 7])"
    and frame: "without [''virtualServers''] payload = without [''virtualServers''] ?lb"
    and entry: "getitem payload ''virtualServers'' =
       Inr (PList (example_server_list @
         [PDict [(''port'', PInt 80), (''allocation'', PInt 100),
                 (''serviceGroups'',
                    PList [PDict [(''routingTypeId'', PInt 2),
                                  (''routingMethodId'', PInt 10)]])]]))"
    by blast
  have "getitem (without [''virtualServers''] payload) ''id'' = getitem payload ''id''"
    by (rule getitem_without) simp
  with frame have id: "getitem payload ''id'' = Inr (PInt 7)"
    by simp
  have "client_lb (EditObject payload 7) = Inr (PInt 1)"
    by (simp add: client_lb_def)
  with run id entry n show ?thesis
    by auto
qed

text \<open>
  Resetting group 50 of the example kicks the connections of service group 60, the first
  group of the first virtual server returned, and not those of 50, the caller's id (which
  is also the id of that server's second group); on an empty response nothing is kicked.
\<close>

theorem reset_service_group_kicks_nested_id_witness:
  "reset_service_group example_filter client_lb 7 (PInt 50) =
     (Inr (PInt 1),
      [GetVirtualServers 7
         (PDict [(''virtualServers'', PDict [(''id'', PDict [(''operation'', PInt 50)])])])
         ''mask[serviceGroups]'',
       KickAllConnections (PInt 60)]) \<and>
   KickAllConnections (PInt 50)
     \<notin> set (snd (reset_service_group example_filter client_lb 7 (PInt 50))) \<and>
   reset_service_group example_filter client_no_servers 7 (PInt 50) =
     (Inl IndexError,
      [GetVirtualServers 7
         (PDict [(''virtualServers'', PDict [(''id'', PDict [(''operation'', PInt 50)])])])
         ''mask[serviceGroups]''])"
proof -
  let ?c = "GetVirtualServers 7
              (PDict [(''virtualServers'', PDict [(''id'', PDict [(''operation'', PInt 50)])])])
              ''mask[serviceGroups]''"
  have h1: "example_filter (PInt 50) = Inr (PDict [(''operation'', PInt 50)])"
    by (simp add: example_filter_def)
  have h2: "client_lb ?c = Inr example_servers"
    by (simp add: client_lb_def)
  have h2': "client_no_servers ?c = Inr (PList [])"
    by (simp add: client_no_servers_def)
  have n60: "\<exists>d rest g gs. example_servers = PList (PDict d # rest) \<and>
               map_of d ''serviceGroups'' = Some (PList (PDict g # gs)) \<and>
               map_of g ''id'' = Some (PInt 60)"
    by (simp add: example_servers_def example_server_list_def)
  have n50: "\<not> (\<exists>d rest g gs. example_servers = PList (PDict d # rest) \<and>
               map_of d ''serviceGroups'' = Some (PList (PDict g # gs)) \<and>
               map_of g ''id'' = Some (PInt 50))"
    by (auto simp: example_servers_def example_server_list_def)
  note inst = reset_service_group_kicks_nested_id
      [where query_filter = example_filter and loadbal_id = 7 and group_id = "PInt 50", OF h1]
  from inst [where client = client_lb and x = "PInt 60", OF h2] n60
  have a: "reset_service_group example_filter client_lb 7 (PInt 50) =
             (client_lb (KickAllConnections (PInt 60)), [?c, KickAllConnections (PInt 60)])"
    by blast
  from inst [where client = client_lb and x = "PInt 50", OF h2] n50
  have b: "KickAllConnections (PInt 50)
             \<notin> set (snd (reset_service_group example_filter client_lb 7 (PInt 50)))"
    by blast
  from inst [where client = client_no_servers and virtual_servers = "PList []", OF h2']
  have c: "reset_service_group example_filter client_no_servers 7 (PInt 50) =
             (Inl IndexError, [?c])"
    by blast
  from a b c show ?thesis
    by (simp add: client_lb_def)
qed

text \<open>
  Editing service 1 of the example: with sentinels only, with a new port, and under an
  id no service has; and editing against a response with no virtual server, where the
  first subscript raises and nothing is submitted.
\<close>

lemma example_first_group_services:
  "first_group_services example_servers = Inr (PList [example_service 1 80, example_service 2 81])"
  by (simp add: first_group_services_def first_service_group_def example_servers_def
      example_server_list_def)


theorem edit_service_port_only_witness:
  "\<exists>v' rest services'.
     snd (edit_service example_filter client_lb 7 1 0 8080 (-1) (-1) (-1)) =
       [GetVirtualServers 7 (edit_service_filter (PDict [(''operation'', PInt 1)]))
          edit_service_mask,
        EditObject (PDict [(''virtualServers'', PList (v' # rest))]) 7] \<and>
     first_group_services (PList (v' # rest)) = Inr (PList services') \<and>
     list_all2
       (\<lambda>s s'. if getitem s ''id'' = Inr (PInt 1)
                then without [''port''] s' = without [''port''] s \<and>
                     getitem s' ''port'' = Inr (PInt 8080)
                else s' = s)
       [example_service 1 80, example_service 2 81] services'"
proof -
  let ?c = "GetVirtualServers 7 (edit_service_filter (PDict [(''operation'', PInt 1)]))
              edit_service_mask"
  have h1: "example_filter (PInt 1) = Inr (PDict [(''operation'', PInt 1)])"
    by (simp add: example_filter_def)
  have h2: "client_lb ?c = Inr example_servers"
    by (simp add: client_lb_def)
  have h4: "(8080::int) \<noteq> -1"
    by simp
  obtain payload where
    run: "snd (edit_service example_filter client_lb 7 1 0 8080 (-1) (-1) (-1)) =
            [?c, EditObject payload 7]"
    by (simp add: edit_service_def edit_service_update_def example_filter_def client_lb_def
        example_servers_def example_server_list_def example_service_def
        at_first_def at_key_def for_each_def edit_service_body_def)
  then have h5: "EditObject payload 7
      \<in> set (snd (edit_service example_filter client_lb 7 1 0 8080 (-1) (-1) (-1)))"
    by simp
  from edit_service_port_only
         [where query_filter = example_filter and client = client_lb and loadbal_id = 7
            and service_id = 1 and payload = payload and i = 7 and port = 8080,
          OF h1 h2 example_first_group_services h4 h5]
  obtain v' rest services' where
    p: "payload = PDict [(''virtualServers'', PList (v' # rest))]"
    and s: "first_group_services (PList (v' # rest)) = Inr (PList services')"
    and l: "list_all2
       (\<lambda>s s'. if getitem s ''id'' = Inr (PInt 1)
                then without [''port''] s' = without [''port''] s \<and>
                     getitem s' ''port'' = Inr (PInt 8080)
                else s' = s)
       [example_service 1 80, example_service 2 81] services'"
    by blast
  from run p
  have "snd (edit_service example_filter client_lb 7 1 0 8080 (-1) (-1) (-1)) =
          [?c, EditObject (PDict [(''virtualServers'', PList (v' # rest))]) 7]"
    by simp
  with s l show ?thesis by blast
qed

theorem edit_service_unknown_id_submits_unchanged_witness:
  "edit_service example_filter client_lb 7 9 4 8080 0 22 5 =
     (Inr (PInt 1),
      [GetVirtualServers 7 (edit_service_filter (PDict [(''operation'', PInt 9)]))
         edit_service_mask,
       EditObject (PDict [(''virtualServers'', example_servers)]) 7]) \<and>
   edit_service example_filter client_no_servers 7 9 4 8080 0 22 5 =
     (Inl IndexError,
      [GetVirtualServers 7 (edit_service_filter (PDict [(''operation'', PInt 9)]))
         edit_service_mask])"
proof -
  let ?c = "GetVirtualServers 7 (edit_service_filter (PDict [(''operation'', PInt 9)]))
              edit_service_mask"
  have h1: "example_filter (PInt 9) = Inr (PDict [(''operation'', PInt 9)])"
    by (simp add: example_filter_def)
  have h2: "client_lb ?c = Inr example_servers"
    by (simp add: client_lb_def)
  have h2': "client_no_servers ?c = Inr (PList [])"
    by (simp add: client_no_servers_def)
  have h4: "\<forall>s \<in> set [example_service 1 80, example_service 2 81].
              \<exists>i. getitem s ''id'' = Inr i \<and> i \<noteq> PInt 9"
    by (simp add: example_service_def)
  from edit_service_unknown_id_submits_unchanged
         [where query_filter = example_filter and client = client_lb and loadbal_id = 7
            and service_id = 9 and ip_address_id = 4 and port = 8080 and enabled = 0
            and hc_type = 22 and weight = 5
            and services = "[example_service 1 80, example_service 2 81]", OF h1 h2]
       example_first_group_services h4
  have a: "edit_service example_filter client_lb 7 9 4 8080 0 22 5 =
     (client_lb (EditObject (PDict [(''virtualServers'', example_servers)]) 7),
      [?c, EditObject (PDict [(''virtualServers'', example_servers)]) 7])"
    by blast
  from edit_service_unknown_id_submits_unchanged
         [where query_filter = example_filter and client = client_no_servers
            and loadbal_id = 7 and service_id = 9 and ip_address_id = 4 and port = 8080
            and enabled = 0 and hc_type = 22 and weight = 5, OF h1 h2']
  have b: "edit_service example_filter client_no_servers 7 9 4 8080 0 22 5 =
     (Inl IndexError, [?c])"
    by blast
  from a b show ?thesis by (simp add: client_lb_def)
qed

theorem edit_service_no_servers_counterexample:
  "edit_service example_filter client_no_servers 7 1 0 8080 (-1) (-1) (-1) =
     (Inl IndexError,
      [GetVirtualServers 7 (edit_service_filter (PDict [(''operation'', PInt 1)]))
         edit_service_mask])"
  by (simp add: edit_service_def edit_service_update_def example_filter_def
      client_no_servers_def at_first_def)

text \<open>
  The three updates on the example, where service 1 and the id 50 also occur outside
  the first service group of the first virtual server.
\<close>

theorem nested_updates_first_group_only_witness:
  "\<exists>pa pb pc v' vssb vssc.
     snd (edit_service example_filter client_lb 7 1 4 8080 0 22 5) =
       [GetVirtualServers 7 (edit_service_filter (PDict [(''operation'', PInt 1)]))
          edit_service_mask,
        EditObject pa 7] \<and>
     pa = PDict [(''virtualServers'', PList (v' # tl example_server_list))] \<and>
     first_group_only [] [''services''] (hd example_server_list) v' \<and>
     snd (add_service client_lb 7 50 9 80 1 21 1) = [GetObject 7 lb_mask, EditObject pb 7] \<and>
     getitem pb ''virtualServers'' = Inr (PList vssb) \<and>
     list_all2
       (\<lambda>v v'. if getitem v ''id'' = Inr (PInt 50)
                then first_group_only [] [''services''] v v' \<and>
                     (\<exists>ss. first_group_services (PList [v]) = Inr (PList ss) \<and>
                        first_group_services (PList [v']) =
                          Inr (PList (ss @ [service_template 9 80 1 21 1])))
                else v' = v)
       example_server_list vssb \<and>
     snd (edit_service_group client_lb 7 50 20 8443 3 11) =
       [GetObject 7 lb_mask, EditObject pc 7] \<and>
     getitem pc ''virtualServers'' = Inr (PList vssc) \<and>
     list_all2
       (\<lambda>v v'. if getitem v ''id'' = Inr (PInt 50)
                then first_group_only [''allocation'', ''port'']
                       [''routingTypeId'', ''routingMethodId''] v v'
                else v' = v)
       example_server_list vssc"
proof -
  let ?c = "GetVirtualServers 7 (edit_service_filter (PDict [(''operation'', PInt 1)]))
              edit_service_mask"
  let ?lb = "PDict [(''id'', PInt 7), (''virtualServers'', example_servers)]"
  have h1: "example_filter (PInt 1) = Inr (PDict [(''operation'', PInt 1)])"
    by (simp add: example_filter_def)
  have h2: "client_lb ?c = Inr example_servers"
    by (simp add: client_lb_def)
  have h3: "client_lb (GetObject 7 lb_mask) = Inr ?lb"
    by (simp add: client_lb_def)
  have h4: "getitem ?lb ''virtualServers'' = Inr (PList example_server_list)"
    by (simp add: example_servers_def)
  note inst = nested_updates_first_group_only
      [where query_filter = example_filter and client = client_lb and loadbal_id = 7
         and service_id = 1 and i = 7, OF h1 h2 h3 h4]
  obtain pa where
    ra: "snd (edit_service example_filter client_lb 7 1 4 8080 0 22 5) = [?c, EditObject pa 7]"
    by (simp add: edit_service_def edit_service_update_def example_filter_def client_lb_def
        example_servers_def example_server_list_def example_service_def
        at_first_def at_key_def for_each_def edit_service_body_def)
  obtain pb where
    rb: "snd (add_service client_lb 7 50 9 80 1 21 1) = [GetObject 7 lb_mask, EditObject pb 7]"
    by (simp add: add_service_def add_service_update_def client_lb_def
        example_servers_def example_server_list_def example_service_def
        at_first_def at_key_def for_each_def add_service_body_def)
  obtain pc where
    rc: "snd (edit_service_group client_lb 7 50 20 8443 3 11) =
           [GetObject 7 lb_mask, EditObject pc 7]"
    by (simp add: edit_service_group_def edit_service_group_update_def client_lb_def
        example_servers_def example_server_list_def example_service_def
        at_first_def at_key_def for_each_def edit_service_group_body_def)
  from ra have ma: "EditObject pa 7
      \<in> set (snd (edit_service example_filter client_lb 7 1 4 8080 0 22 5))"
    by simp
  from rb have mb: "EditObject pb 7 \<in> set (snd (add_service client_lb 7 50 9 80 1 21 1))"
    by simp
  from rc have mc: "EditObject pc 7
      \<in> set (snd (edit_service_group client_lb 7 50 20 8443 3 11))"
    by simp
  from inst [where payload = pa and ip_address_id = 4 and port = 8080 and enabled = 0
              and hc_type = 22 and weight = 5] ma
  obtain v v' rest where "example_servers = PList (v # rest)"
    and pa: "pa = PDict [(''virtualServers'', PList (v' # rest))]"
    and fa: "first_group_only [] [''services''] v v'"
    by blast
  then have "example_server_list = v # rest"
    by (simp add: example_servers_def)
  then have "hd example_server_list = v" "tl example_server_list = rest"
    by (metis list.sel(1), metis list.sel(3))
  with pa fa have a: "pa = PDict [(''virtualServers'', PList (v' # tl example_server_list))]"
    "first_group_only [] [''services''] (hd example_server_list) v'"
    by simp_all
  from inst [where payload = pb and group_id = 50 and ip_address_id = 9 and port = 80
              and enabled = 1 and hc_type = 21 and weight = 1] mb
  obtain vssb where b: "getitem pb ''virtualServers'' = Inr (PList vssb)"
    "list_all2
       (\<lambda>v v'. if getitem v ''id'' = Inr (PInt 50)
                then first_group_only [] [''services''] v v' \<and>
                     (\<exists>ss. first_group_services (PList [v]) = Inr (PList ss) \<and>
                        first_group_services (PList [v']) =
                          Inr (PList (ss @ [service_template 9 80 1 21 1])))
                else v' = v)
       example_server_list vssb"
    by blast
  from inst [where payload = pc and group_id = 50 and allocation = 20 and port = 8443
              and routing_type = 3 and routing_method = 11] mc
  obtain vssc where c: "getitem pc ''virtualServers'' = Inr (PList vssc)"
    "list_all2
       (\<lambda>v v'. if getitem v ''id'' = Inr (PInt 50)
                then first_group_only [''allocation'', ''port'']
                       [''routingTypeId'', ''routingMethodId''] v v'
                else v' = v)
       example_server_list vssc"
    by blast
  from ra rb rc a b c show ?thesis
    by blast
qed

end
